theory Spec2Isabelle
  imports Main "HOL-Library.Sublist" "HOL-Library.AList"
begin

section \<open>The project tracker's request handler (lambda_function.py)\<close>

text \<open>
  The module is one entry point, \<open>lambda_handler\<close>, wrapped by \<open>handle_errors\<close>, that
  routes an event to one of five handlers registered in the dictionary \<open>routes\<close>. Each
  handler makes one call on a DynamoDB table and builds a response.

  What the module imports is taken as it is used: \<open>json.loads\<close> and the text that
  \<open>json.dumps\<close> prints for a JSON value are parameters, the table is a record of five
  operations on a state, each of which may raise, and the value of
  \<open>str(uuid.uuid4())\<close> in one invocation is an argument. An exception is a value: every
  function that may raise returns a sum, \<open>Inl\<close> the exception.
\<close>

subsection \<open>Python values\<close>

text \<open>
  What \<open>json.loads\<close> returns and \<open>json.dumps\<close> takes. A dictionary is an association
  list read with \<open>map_of\<close>; a float is kept as its text, no function here computes
  with one.
\<close>

datatype json =
    JNull
  | JBool bool
  | JInt int
  | JFloat string
  | JStr string
  | JArr "json list"
  | JObj "(string \<times> json) list"

text \<open>An exception carries what \<open>str(e)\<close> returns.\<close>

datatype exn =
    AttributeError string
  | TypeError string
  | KeyError string
  | ValueError string
  | ClientError string

fun str_exn :: "exn \<Rightarrow> string" where
  "str_exn (AttributeError m) = m"
| "str_exn (TypeError m) = m"
| "str_exn (KeyError m) = m"
| "str_exn (ValueError m) = m"
| "str_exn (ClientError m) = m"

definition quoted :: "string \<Rightarrow> string" where
  "quoted s = [CHR 0x27] @ s @ [CHR 0x27]"

fun type_name :: "json \<Rightarrow> string" where
  "type_name JNull = ''NoneType''"
| "type_name (JBool b) = ''bool''"
| "type_name (JInt i) = ''int''"
| "type_name (JFloat f) = ''float''"
| "type_name (JStr s) = ''str''"
| "type_name (JArr xs) = ''list''"
| "type_name (JObj kvs) = ''dict''"

definition no_attribute :: "string \<Rightarrow> string \<Rightarrow> exn" where
  "no_attribute ty attr =
     AttributeError (quoted ty @ '' object has no attribute '' @ quoted attr)"

text \<open>\<open>d.get(k)\<close> on a dictionary: the value, \<open>None\<close> for a missing key.\<close>

definition dict_get :: "(string \<times> json) list \<Rightarrow> string \<Rightarrow> json" where
  "dict_get kvs k = (case map_of kvs k of None \<Rightarrow> JNull | Some v \<Rightarrow> v)"

text \<open>\<open>body.get(k)\<close> on what \<open>json.loads\<close> returned: only a dictionary has \<open>get\<close>.\<close>

definition body_get :: "json \<Rightarrow> string \<Rightarrow> exn + json" where
  "body_get b k =
     (case b of
        JObj kvs \<Rightarrow> Inr (dict_get kvs k)
      | _ \<Rightarrow> Inl (no_attribute (type_name b) ''get''))"

text \<open>
  What the table resource returns in an item. A number of the table comes back as a
  \<open>Decimal\<close>, never as an \<open>int\<close> or a \<open>float\<close>; binary data comes back as a \<open>Binary\<close> and
  a set as a \<open>set\<close>. The number of a \<open>Decimal\<close> is kept as the number it was made from.
\<close>

datatype number = OfInt int | OfFloat string

datatype pyval =
    PNone
  | PBool bool
  | PStr string
  | PList "pyval list"
  | PDict "(string \<times> pyval) list"
  | PDecimal number
  | PBinary string
  | PSet "pyval list"

text \<open>
  \<open>json.dumps\<close> on such a value: the encoder raises a TypeError at the first object it
  meets that is not of a JSON type, and otherwise prints the JSON value.
\<close>

definition not_serializable :: "string \<Rightarrow> exn" where
  "not_serializable ty =
     TypeError (''Object of type '' @ ty @ '' is not JSON serializable'')"

fun to_json :: "pyval \<Rightarrow> exn + json"
  and to_json_list :: "pyval list \<Rightarrow> exn + json list"
  and to_json_items :: "(string \<times> pyval) list \<Rightarrow> exn + (string \<times> json) list" where
  "to_json PNone = Inr JNull"
| "to_json (PBool b) = Inr (JBool b)"
| "to_json (PStr s) = Inr (JStr s)"
| "to_json (PList xs) =
     (case to_json_list xs of Inl e \<Rightarrow> Inl e | Inr js \<Rightarrow> Inr (JArr js))"
| "to_json (PDict kvs) =
     (case to_json_items kvs of Inl e \<Rightarrow> Inl e | Inr js \<Rightarrow> Inr (JObj js))"
| "to_json (PDecimal n) = Inl (not_serializable ''Decimal'')"
| "to_json (PBinary b) = Inl (not_serializable ''Binary'')"
| "to_json (PSet xs) = Inl (not_serializable ''set'')"
| "to_json_list [] = Inr []"
| "to_json_list (x # xs) =
     (case to_json x of Inl e \<Rightarrow> Inl e | Inr j \<Rightarrow>
     (case to_json_list xs of Inl e \<Rightarrow> Inl e | Inr js \<Rightarrow> Inr (j # js)))"
| "to_json_items [] = Inr []"
| "to_json_items ((k, v) # kvs) =
     (case to_json v of Inl e \<Rightarrow> Inl e | Inr j \<Rightarrow>
     (case to_json_items kvs of Inl e \<Rightarrow> Inl e | Inr js \<Rightarrow> Inr ((k, j) # js)))"

text \<open>The values in which there is no number, at any depth.\<close>

fun number_free :: "json \<Rightarrow> bool" where
  "number_free (JInt n) = False"
| "number_free (JFloat f) = False"
| "number_free (JArr xs) = (\<forall>x \<in> set xs. number_free x)"
| "number_free (JObj kvs) = (\<forall>(k, v) \<in> set kvs. number_free v)"
| "number_free v = True"

text \<open>\<open>s.split(sep)\<close> for a separator of one character.\<close>

fun split :: "char \<Rightarrow> string \<Rightarrow> string list" where
  "split sep [] = [[]]"
| "split sep (c # cs) =
     (if c = sep then [] # split sep cs
      else (case split sep cs of [] \<Rightarrow> [[c]] | w # ws \<Rightarrow> (c # w) # ws))"

subsection \<open>Events, responses and what the module imports\<close>

text \<open>
  The event is a dictionary. The method, the path and the body are read with
  \<open>event.get\<close>: a field is \<open>None\<close> when it is missing, and a string when present, as
  in the signature of the entry point (section 6 of the specification). The path
  parameters are read with \<open>event['pathParameters']\<close>: the field is \<open>None\<close> when the
  event has no such key, \<open>Some None\<close> when the key holds \<open>None\<close>, and \<open>Some (Some d)\<close>
  when it holds the dictionary \<open>d\<close>. The response is the dictionary of a status code and
  a body, the text \<open>json.dumps\<close> returned.
\<close>

record event =
  httpMethod :: "string option"
  path :: "string option"
  body :: "string option"
  pathParameters :: "(string \<times> string) list option option"

record response =
  statusCode :: int
  body :: string

text \<open>
  The event of a request with a method, a path and possibly a body, as it reaches the
  entry point, without path parameters: the router sets \<open>pathParameters\<close> itself.
\<close>

definition request :: "string \<Rightarrow> string \<Rightarrow> string option \<Rightarrow> event" where
  "request m p b =
     \<lparr>httpMethod = Some m, path = Some p, event.body = b, pathParameters = None\<rparr>"

text \<open>
  An item as the module builds it, from what \<open>json.loads\<close> returned, and an item as the
  table resource returns it.
\<close>

type_synonym item = "(string \<times> json) list"

type_synonym attrs = "(string \<times> pyval) list"

text \<open>
  The table resource of boto3: each call takes the table's state and returns either its
  result or the exception it raised, with the state it leaves. \<open>scan\<close> returns the
  \<open>Items\<close> of its response and \<open>get_item\<close> the \<open>Item\<close>, if any. \<open>update_item\<close> takes
  the key and the attributes its \<open>SET\<close> expression assigns.
\<close>

record 's table =
  put_item :: "item \<Rightarrow> 's \<Rightarrow> (exn + unit) \<times> 's"
  scan :: "'s \<Rightarrow> (exn + attrs list) \<times> 's"
  get_item :: "string \<Rightarrow> 's \<Rightarrow> (exn + attrs option) \<times> 's"
  update_item :: "string \<Rightarrow> item \<Rightarrow> 's \<Rightarrow> (exn + unit) \<times> 's"
  delete_item :: "string \<Rightarrow> 's \<Rightarrow> (exn + unit) \<times> 's"

record 's env =
  json_loads :: "string \<Rightarrow> exn + json"
  json_dumps :: "json \<Rightarrow> string"
  table :: "'s table"

text \<open>\<open>json.loads(event.get('body'))\<close>: \<open>json.loads(None)\<close> raises a TypeError.\<close>

definition loads_body :: "'s env \<Rightarrow> event \<Rightarrow> exn + json" where
  "loads_body env ev =
     (case event.body ev of
        None \<Rightarrow> Inl (TypeError ''the JSON object must be str, bytes or bytearray, not NoneType'')
      | Some b \<Rightarrow> json_loads env b)"

text \<open>
  \<open>event['pathParameters']['id']\<close>: a KeyError for a missing key, of the event or of the
  parameters, and a TypeError when the parameters are \<open>None\<close>.
\<close>

definition path_id :: "event \<Rightarrow> exn + string" where
  "path_id ev =
     (case pathParameters ev of
        None \<Rightarrow> Inl (KeyError (quoted ''pathParameters''))
      | Some None \<Rightarrow>
          Inl (TypeError (quoted ''NoneType'' @ '' object is not subscriptable''))
      | Some (Some pp) \<Rightarrow>
          (case map_of pp ''id'' of
             None \<Rightarrow> Inl (KeyError (quoted ''id''))
           | Some i \<Rightarrow> Inr i))"

text \<open>
  \<open>json.dumps\<close> on a value of the table: \<open>json_dumps\<close> prints a JSON value, which is
  all that \<open>json.loads\<close> returns and the module builds itself; on those it cannot raise.
\<close>

definition dumps :: "'s env \<Rightarrow> pyval \<Rightarrow> exn + string" where
  "dumps env v =
     (case to_json v of Inl e \<Rightarrow> Inl e | Inr j \<Rightarrow> Inr (json_dumps env j))"

definition message :: "'s env \<Rightarrow> string \<Rightarrow> string" where
  "message env m = json_dumps env (JObj [(''message'', JStr m)])"

subsection \<open>The handlers\<close>

type_synonym 's handler = "'s env \<Rightarrow> string \<Rightarrow> event \<Rightarrow> 's \<Rightarrow> (exn + response) \<times> 's"

text \<open>The item \<open>create_project\<close> builds from the parsed body and the generated id.\<close>

definition new_item :: "string \<Rightarrow> json \<Rightarrow> exn + item" where
  "new_item u b =
     (case body_get b ''name'' of Inl e \<Rightarrow> Inl e | Inr n \<Rightarrow>
     (case body_get b ''description'' of Inl e \<Rightarrow> Inl e | Inr d \<Rightarrow>
     (case body_get b ''status'' of Inl e \<Rightarrow> Inl e | Inr st \<Rightarrow>
     (case body_get b ''createdAt'' of Inl e \<Rightarrow> Inl e | Inr c \<Rightarrow>
        Inr [(''id'', JStr u), (''name'', n), (''description'', d),
             (''status'', st), (''createdAt'', c)]))))"

definition create_project :: "'s handler" where
  "create_project env u ev s =
     (case loads_body env ev of Inl e \<Rightarrow> (Inl e, s) | Inr b \<Rightarrow>
     (case new_item u b of Inl e \<Rightarrow> (Inl e, s) | Inr it \<Rightarrow>
     (case put_item (table env) it s of
        (Inl e, s') \<Rightarrow> (Inl e, s')
      | (Inr _, s') \<Rightarrow>
          (Inr \<lparr>statusCode = 201, body = json_dumps env (JObj it)\<rparr>, s'))))"

definition get_all_projects :: "'s handler" where
  "get_all_projects env u ev s =
     (case scan (table env) s of
        (Inl e, s') \<Rightarrow> (Inl e, s')
      | (Inr items, s') \<Rightarrow>
          (case dumps env (PList (map PDict items)) of
             Inl e \<Rightarrow> (Inl e, s')
           | Inr txt \<Rightarrow> (Inr \<lparr>statusCode = 200, body = txt\<rparr>, s')))"

text \<open>\<open>if not item\<close> holds for \<open>None\<close> and for the empty dictionary.\<close>

definition get_project_by_id :: "'s handler" where
  "get_project_by_id env u ev s =
     (case path_id ev of Inl e \<Rightarrow> (Inl e, s) | Inr project_id \<Rightarrow>
     (case get_item (table env) project_id s of
        (Inl e, s') \<Rightarrow> (Inl e, s')
      | (Inr None, s') \<Rightarrow>
          (Inr \<lparr>statusCode = 404, body = message env ''Project not found''\<rparr>, s')
      | (Inr (Some it), s') \<Rightarrow>
          (if it = [] then
             (Inr \<lparr>statusCode = 404, body = message env ''Project not found''\<rparr>, s')
           else
             (case dumps env (PDict it) of
                Inl e \<Rightarrow> (Inl e, s')
              | Inr txt \<Rightarrow> (Inr \<lparr>statusCode = 200, body = txt\<rparr>, s')))))"

text \<open>The attributes the \<open>SET\<close> expression of \<open>update_project\<close> assigns.\<close>

definition update_values :: "json \<Rightarrow> exn + item" where
  "update_values b =
     (case body_get b ''name'' of Inl e \<Rightarrow> Inl e | Inr n \<Rightarrow>
     (case body_get b ''description'' of Inl e \<Rightarrow> Inl e | Inr d \<Rightarrow>
     (case body_get b ''status'' of Inl e \<Rightarrow> Inl e | Inr st \<Rightarrow>
        Inr [(''name'', n), (''description'', d), (''status'', st)])))"

definition update_project :: "'s handler" where
  "update_project env u ev s =
     (case path_id ev of Inl e \<Rightarrow> (Inl e, s) | Inr project_id \<Rightarrow>
     (case loads_body env ev of Inl e \<Rightarrow> (Inl e, s) | Inr b \<Rightarrow>
     (case update_values b of Inl e \<Rightarrow> (Inl e, s) | Inr vals \<Rightarrow>
     (case update_item (table env) project_id vals s of
        (Inl e, s') \<Rightarrow> (Inl e, s')
      | (Inr _, s') \<Rightarrow>
          (Inr \<lparr>statusCode = 200, body = message env ''Project updated successfully''\<rparr>, s')))))"

definition delete_project :: "'s handler" where
  "delete_project env u ev s =
     (case path_id ev of Inl e \<Rightarrow> (Inl e, s) | Inr project_id \<Rightarrow>
     (case delete_item (table env) project_id s of
        (Inl e, s') \<Rightarrow> (Inl e, s')
      | (Inr _, s') \<Rightarrow>
          (Inr \<lparr>statusCode = 200, body = message env ''Project deleted successfully''\<rparr>, s')))"

subsection \<open>The router and the error wrapper\<close>

text \<open>The dictionary the five \<open>@route\<close> decorators leave in \<open>routes\<close>.\<close>

definition routes :: "(string \<times> (string \<times> 's handler) list) list" where
  "routes =
     [(''/projects'', [(''POST'', create_project), (''GET'', get_all_projects)]),
      (''/projects/{id}'', [(''GET'', get_project_by_id), (''PUT'', update_project),
                            (''DELETE'', delete_project)])]"

text \<open>\<open>routes.get(handler_path, {}).get(http_method)\<close>; no key of a method table is \<open>None\<close>.\<close>

definition find_handler :: "string \<Rightarrow> string option \<Rightarrow> 's handler option" where
  "find_handler handler_path http_method =
     (case http_method of
        None \<Rightarrow> None
      | Some m \<Rightarrow>
          map_of (case map_of routes handler_path of None \<Rightarrow> [] | Some d \<Rightarrow> d) m)"

text \<open>
  The check for path parameters: the pair of \<open>dynamic_path\<close> and \<open>path_parameters\<close>
  after the \<open>if\<close> on the path.
\<close>

definition path_params :: "string \<Rightarrow> string option \<times> (string \<times> string) list option" where
  "path_params p =
     (if prefix ''/projects/'' p then
        (let path_parts = split CHR ''/'' p in
         if length path_parts = 3 \<and> path_parts ! 1 = ''projects''
         then (Some ''/projects/{id}'', Some [(''id'', path_parts ! 2)])
         else (None, None))
      else (None, None))"

text \<open>\<open>dynamic_path if dynamic_path else path\<close>: \<open>None\<close> and the empty string are false.\<close>

definition handler_path :: "string \<Rightarrow> string" where
  "handler_path p =
     (case fst (path_params p) of
        None \<Rightarrow> p
      | Some d \<Rightarrow> if d = [] then p else d)"

text \<open>The body of \<open>lambda_handler\<close>; \<open>path.startswith\<close> raises when the path is \<open>None\<close>.\<close>

definition lambda_handler_body :: "'s handler" where
  "lambda_handler_body env u ev s =
     (case path ev of
        None \<Rightarrow> (Inl (no_attribute ''NoneType'' ''startswith''), s)
      | Some p \<Rightarrow>
          (case find_handler (handler_path p) (httpMethod ev) of
             None \<Rightarrow> (Inr \<lparr>statusCode = 404, body = message env ''Not Found''\<rparr>, s)
           | Some handler \<Rightarrow>
               handler env u (ev\<lparr>pathParameters := Some (snd (path_params p))\<rparr>) s))"

text \<open>The response of the \<open>except\<close> branch of \<open>handle_errors\<close>.\<close>

definition error_response :: "'s env \<Rightarrow> exn \<Rightarrow> response" where
  "error_response env e =
     \<lparr>statusCode = 500,
      body = message env (''An internal error occurred: '' @ str_exn e)\<rparr>"

text \<open>The wrapper \<open>handle_errors\<close> puts around a function.\<close>

definition handle_errors :: "'s handler \<Rightarrow> 's env \<Rightarrow> string \<Rightarrow> event \<Rightarrow> 's \<Rightarrow> response \<times> 's" where
  "handle_errors func env u ev s =
     (case func env u ev s of
        (Inr r, s') \<Rightarrow> (r, s')
      | (Inl e, s') \<Rightarrow> (error_response env e, s'))"

definition lambda_handler :: "'s env \<Rightarrow> string \<Rightarrow> event \<Rightarrow> 's \<Rightarrow> response \<times> 's" where
  "lambda_handler = handle_errors lambda_handler_body"

subsection \<open>The table\<close>

text \<open>
  The module only calls the table; what a call does is the store's. The properties of
  what is stored are proved on the store of the specification (section 6, the storage
  interface the handlers consume): a finite map from the key \<open>id\<close> to the other
  attributes of the item with that key, here an association list. The store of the
  specification refuses no value. It holds a number as a number of the table, and what
  \<open>getByKey\<close> returns for one is the \<open>Decimal\<close> that the table resource of the module
  returns; every other value it holds and returns as it is.
\<close>

type_synonym store = "(string \<times> attrs) list"

text \<open>
  Modelled from the spec: \<open>put(item)\<close> and \<open>updateFields(id, fields)\<close> of the storage
  collaborator take mappings. This is a value of such a mapping as the store holds it
  and \<open>getByKey\<close> returns it.
\<close>

fun stored :: "json \<Rightarrow> pyval" where
  "stored JNull = PNone"
| "stored (JBool b) = PBool b"
| "stored (JInt n) = PDecimal (OfInt n)"
| "stored (JFloat f) = PDecimal (OfFloat f)"
| "stored (JStr s) = PStr s"
| "stored (JArr xs) = PList (map stored xs)"
| "stored (JObj kvs) = PDict (map (\<lambda>(k, v). (k, stored v)) kvs)"

text \<open>Modelled from the spec: the mapping given to the storage collaborator, as it holds it.\<close>

definition stored_item :: "item \<Rightarrow> attrs" where
  "stored_item it = map (\<lambda>(k, v). (k, stored v)) it"

text \<open>
  Modelled from the spec: \<open>put(item)\<close>, "upsert by id", of the storage collaborator,
  which is not part of the module. The item replaces the one stored under its \<open>id\<close>;
  an item without a string \<open>id\<close> has no key and is refused.
\<close>

definition mem_put_item :: "item \<Rightarrow> store \<Rightarrow> (exn + unit) \<times> store" where
  "mem_put_item it s =
     (case map_of it ''id'' of
        Some (JStr k) \<Rightarrow>
          (Inr (), AList.update k (stored_item (AList.delete ''id'' it)) s)
      | _ \<Rightarrow> (Inl (ClientError ''Missing the key id in the item''), s))"

text \<open>
  Modelled from the spec: \<open>scanAll()\<close>, "return every stored item, no pagination", of
  the storage collaborator. Each item is returned with its key.
\<close>

definition mem_scan :: "store \<Rightarrow> (exn + attrs list) \<times> store" where
  "mem_scan s =
     (Inr (map (\<lambda>(k, attrs). (''id'', PStr k) # attrs) (AList.clearjunk s)), s)"

text \<open>
  Modelled from the spec: \<open>getByKey(id)\<close>, "mapping or absent", of the storage
  collaborator.
\<close>

definition mem_get_item :: "string \<Rightarrow> store \<Rightarrow> (exn + attrs option) \<times> store" where
  "mem_get_item k s =
     (Inr (case map_of s k of
             None \<Rightarrow> None
           | Some attrs \<Rightarrow> Some ((''id'', PStr k) # attrs)), s)"

text \<open>
  Modelled from the spec: \<open>updateFields(id, fields)\<close>, "unconditional; no existence
  check", of the storage collaborator. The fields are assigned in the item stored under
  the key, one in which nothing else is set when there was none, as DynamoDB's
  \<open>UpdateItem\<close> does; the key itself cannot be assigned.
\<close>

definition mem_update_item :: "string \<Rightarrow> item \<Rightarrow> store \<Rightarrow> (exn + unit) \<times> store" where
  "mem_update_item k vals s =
     (if ''id'' \<in> set (map fst vals) then
        (Inl (ClientError ''Cannot update attribute id. This attribute is part of the key''), s)
      else
        (Inr (),
         AList.update k
           (fold (\<lambda>(f, v). AList.update f (stored v)) vals
              (case map_of s k of None \<Rightarrow> [] | Some attrs \<Rightarrow> attrs)) s))"

text \<open>
  Modelled from the spec: \<open>deleteByKey(id)\<close>, "unconditional; no existence check", of
  the storage collaborator.
\<close>

definition mem_delete_item :: "string \<Rightarrow> store \<Rightarrow> (exn + unit) \<times> store" where
  "mem_delete_item k s = (Inr (), AList.delete k s)"

text \<open>
  Modelled from the spec: the storage collaborator, as the table the module calls.
\<close>

definition mem_table :: "store table" where
  "mem_table =
     \<lparr>put_item = mem_put_item, scan = mem_scan, get_item = mem_get_item,
      update_item = mem_update_item, delete_item = mem_delete_item\<rparr>"

text \<open>The module's imports with that table, for any \<open>json.loads\<close> and \<open>json.dumps\<close>.\<close>

definition mem_env :: "(string \<Rightarrow> exn + json) \<Rightarrow> (json \<Rightarrow> string) \<Rightarrow> store env" where
  "mem_env L D = \<lparr>json_loads = L, json_dumps = D, table = mem_table\<rparr>"

subsection \<open>Stand-ins for the examples\<close>

text \<open>
  The examples below run the handler on concrete requests. They need some \<open>json.loads\<close>
  and \<open>json.dumps\<close>: a parser that knows three bodies and rejects the rest, a printer
  that shows the first member of an object when it is a string (the message of a message
  body, the id of an item), and a table on which every call raises.
\<close>

definition example_loads :: "string \<Rightarrow> exn + json" where
  "example_loads b =
     (if b = ''{}'' then Inr (JObj [])
      else if b = ''{\"name\": \"A\", \"status\": \"open\"}''
      then Inr (JObj [(''name'', JStr ''A''), (''status'', JStr ''open'')])
      else if b = ''{\"name\": 5}''
      then Inr (JObj [(''name'', JInt 5)])
      else Inl (ValueError ''Expecting value: line 1 column 1 (char 0)''))"

definition example_dumps :: "json \<Rightarrow> string" where
  "example_dumps v = (case v of JObj ((k, JStr m) # kvs) \<Rightarrow> m | _ \<Rightarrow> [])"

definition example_env :: "store env" where
  "example_env = mem_env example_loads example_dumps"

definition down_table :: "unit table" where
  "down_table =
     \<lparr>put_item = (\<lambda>it s. (Inl (ClientError ''Service unavailable''), s)),
      scan = (\<lambda>s. (Inl (ClientError ''Service unavailable''), s)),
      get_item = (\<lambda>k s. (Inl (ClientError ''Service unavailable''), s)),
      update_item = (\<lambda>k vals s. (Inl (ClientError ''Service unavailable''), s)),
      delete_item = (\<lambda>k s. (Inl (ClientError ''Service unavailable''), s))\<rparr>"

definition down_env :: "unit env" where
  "down_env = \<lparr>json_loads = example_loads, json_dumps = example_dumps, table = down_table\<rparr>"

section \<open>Routing\<close>

subsection \<open>Splitting a path\<close>

lemma split_no_sep: "sep \<notin> set x \<Longrightarrow> split sep x = [x]"
  by (induction x) auto

lemma length_split: "length (split sep s) = Suc (length (filter (\<lambda>c. c = sep) s))"
  by (induction s) (auto split: list.splits)

lemma path_params_id:
  assumes "CHR ''/'' \<notin> set x"
  shows "path_params (''/projects/'' @ x) = (Some ''/projects/{id}'', Some [(''id'', x)])"
  using assms by (simp add: path_params_def split_no_sep)

lemma path_params_deeper:
  "path_params (''/projects/'' @ x @ ''/'' @ y) = (None, None)"
  by (simp add: path_params_def length_split Let_def)

text \<open>The two outcomes of the check, and the paths that have the second.\<close>

lemma path_params_cases:
  "path_params p = (None, None) \<or>
   (\<exists>x. CHR ''/'' \<notin> set x \<and> p = ''/projects/'' @ x \<and>
        path_params p = (Some ''/projects/{id}'', Some [(''id'', x)]))"
proof (cases "fst (path_params p) = None")
  case True
  then show ?thesis by (auto simp: path_params_def Let_def split: if_splits)
next
  case False
  then have pre: "prefix ''/projects/'' p" and len: "length (split CHR ''/'' p) = 3"
    by (auto simp: path_params_def Let_def split: if_splits)
  from pre obtain x where p: "p = ''/projects/'' @ x" by (auto simp: prefix_def)
  from len p have "filter (\<lambda>c. c = CHR ''/'') x = []"
    by (simp add: length_split)
  then have "CHR ''/'' \<notin> set x" by (auto simp: filter_empty_conv)
  with p path_params_id[of x] show ?thesis by blast
qed

lemma handler_path_id:
  "CHR ''/'' \<notin> set x \<Longrightarrow> handler_path (''/projects/'' @ x) = ''/projects/{id}''"
  using path_params_id[of x] by (simp add: handler_path_def)

lemma handler_path_projects: "handler_path ''/projects'' = ''/projects''"
  by (simp add: handler_path_def path_params_def)

subsection \<open>The dispatch table\<close>

lemma find_handler_by_id:
  "find_handler ''/projects/{id}'' (Some ''GET'') = Some get_project_by_id"
  "find_handler ''/projects/{id}'' (Some ''PUT'') = Some update_project"
  "find_handler ''/projects/{id}'' (Some ''DELETE'') = Some delete_project"
  by (simp_all add: find_handler_def routes_def)

lemma find_handler_projects:
  "find_handler ''/projects'' (Some ''POST'') = Some create_project"
  "find_handler ''/projects'' (Some ''GET'') = Some get_all_projects"
  by (simp_all add: find_handler_def routes_def)

text \<open>The pairs of a pattern and a method that have no handler.\<close>

lemma find_handler_None_iff:
  "(find_handler hp m :: 's handler option) = None \<longleftrightarrow>
     \<not> (hp = ''/projects'' \<and> m \<in> {Some ''POST'', Some ''GET''}) \<and>
     \<not> (hp = ''/projects/{id}'' \<and> m \<in> {Some ''GET'', Some ''PUT'', Some ''DELETE''})"
  by (auto simp: find_handler_def routes_def split: option.splits if_splits)

text \<open>A path that does not start with \<open>/projects\<close> has no handler, whatever the method.\<close>

lemma find_handler_outside_projects:
  assumes "\<not> prefix ''/projects'' p"
  shows "(find_handler (handler_path p) m :: 's handler option) = None"
proof -
  have "\<not> prefix ''/projects/'' p"
    using assms by (auto simp: prefix_def)
  then have "handler_path p = p"
    by (simp add: handler_path_def path_params_def)
  moreover have "p \<noteq> ''/projects''" and "p \<noteq> ''/projects/{id}''"
    using assms by (auto simp: prefix_def)
  ultimately show ?thesis
    by (simp add: find_handler_None_iff)
qed

lemma dispatch_by_id:
  assumes "CHR ''/'' \<notin> set x"
    and "find_handler ''/projects/{id}'' (Some m) = Some h"
  shows "lambda_handler_body env u
           (ev\<lparr>httpMethod := Some m, path := Some (''/projects/'' @ x)\<rparr>) s =
         h env u (ev\<lparr>httpMethod := Some m, path := Some (''/projects/'' @ x),
                      pathParameters := Some (Some [(''id'', x)])\<rparr>) s"
  using assms path_params_id[of x] handler_path_id[of x]
  by (simp add: lambda_handler_body_def)

lemma dispatch_projects:
  assumes "find_handler ''/projects'' (Some m) = Some h"
  shows "lambda_handler_body env u (ev\<lparr>httpMethod := Some m, path := Some ''/projects''\<rparr>) s =
         h env u (ev\<lparr>httpMethod := Some m, path := Some ''/projects'',
                      pathParameters := Some None\<rparr>) s"
  using assms by (simp add: lambda_handler_body_def handler_path_projects path_params_def)

lemma unrouted:
  assumes "path ev = Some p"
    and "(find_handler (handler_path p) (httpMethod ev) :: 's handler option) = None"
  shows "lambda_handler (env :: 's env) u ev s =
         (\<lparr>statusCode = 404,
           body = json_dumps env (JObj [(''message'', JStr ''Not Found'')])\<rparr>, s)"
  using assms
  by (simp add: lambda_handler_def handle_errors_def lambda_handler_body_def message_def)

text \<open>
  C1. A path \<open>/projects/x\<close> in which \<open>x\<close> has no slash (the empty \<open>x\<close> of
  \<open>/projects/\<close> included) resolves to the pattern \<open>/projects/{id}\<close> with the path
  parameter \<open>id\<close> bound to \<open>x\<close>, and the router calls the handler registered for GET,
  PUT or DELETE under that pattern on the event with this parameter. A path
  \<open>/projects/y/z\<close>, for any \<open>y\<close> and \<open>z\<close>, does not match the pattern: the router looks up
  the path itself.
\<close>

theorem dynamic_path_binds_id:
  assumes "CHR ''/'' \<notin> set x"
  shows "path_params (''/projects/'' @ x) = (Some ''/projects/{id}'', Some [(''id'', x)]) \<and>
         handler_path (''/projects/'' @ x) = ''/projects/{id}'' \<and>
         lambda_handler_body env u
             (ev\<lparr>httpMethod := Some ''GET'', path := Some (''/projects/'' @ x)\<rparr>) s =
           get_project_by_id env u
             (ev\<lparr>httpMethod := Some ''GET'', path := Some (''/projects/'' @ x),
                 pathParameters := Some (Some [(''id'', x)])\<rparr>) s \<and>
         lambda_handler_body env u
             (ev\<lparr>httpMethod := Some ''PUT'', path := Some (''/projects/'' @ x)\<rparr>) s =
           update_project env u
             (ev\<lparr>httpMethod := Some ''PUT'', path := Some (''/projects/'' @ x),
                 pathParameters := Some (Some [(''id'', x)])\<rparr>) s \<and>
         lambda_handler_body env u
             (ev\<lparr>httpMethod := Some ''DELETE'', path := Some (''/projects/'' @ x)\<rparr>) s =
           delete_project env u
             (ev\<lparr>httpMethod := Some ''DELETE'', path := Some (''/projects/'' @ x),
                 pathParameters := Some (Some [(''id'', x)])\<rparr>) s \<and>
         path_params (''/projects/'' @ y @ ''/'' @ z) = (None, None) \<and>
         handler_path (''/projects/'' @ y @ ''/'' @ z) = ''/projects/'' @ y @ ''/'' @ z"
proof -
  have deeper: "handler_path (''/projects/'' @ y @ ''/'' @ z) = ''/projects/'' @ y @ ''/'' @ z"
    using path_params_deeper[of y z] by (simp add: handler_path_def)
  show ?thesis
    using assms dispatch_by_id[OF assms find_handler_by_id(1), of env u ev s]
      dispatch_by_id[OF assms find_handler_by_id(2), of env u ev s]
      dispatch_by_id[OF assms find_handler_by_id(3), of env u ev s]
      path_params_id[OF assms] handler_path_id[OF assms] path_params_deeper[of y z] deeper
    by simp
qed

text \<open>
  The path \<open>/projects/\<close> binds the empty id, and GET on it reaches
  \<open>get_project_by_id\<close>; \<open>/projects/a/b\<close> binds nothing.
\<close>

theorem dynamic_path_binds_id_witness:
  "CHR ''/'' \<notin> set [] \<and>
   path_params ''/projects/'' = (Some ''/projects/{id}'', Some [(''id'', [])]) \<and>
   lambda_handler_body example_env ''u1'' (request ''GET'' ''/projects/'' None) [] =
     get_project_by_id example_env ''u1''
       ((request ''GET'' ''/projects/'' None)\<lparr>pathParameters := Some (Some [(''id'', [])])\<rparr>) [] \<and>
   path_params ''/projects/a/b'' = (None, None)"
  using dynamic_path_binds_id [of "[]" example_env "''u1''"
      "request ''GET'' ''/projects/'' None" "[]" "''a''" "''b''"]
  by (simp add: request_def)

text \<open>
  C2. When the event has a path and the lookup of the resolved pattern and the method
  finds no handler, the entry point returns status 404 with the body
  \<open>{"message": "Not Found"}\<close>, and calls nothing. \<open>find_handler_None_iff\<close> lists the
  pairs of a pattern and a method for which that is so, and
  \<open>find_handler_outside_projects\<close> shows it of every path that does not start with
  \<open>/projects\<close>.
\<close>

theorem unrouted_is_404:
  fixes env :: "'s env"
  assumes "path ev = Some p"
    and "(find_handler (handler_path p) (httpMethod ev) :: 's handler option) = None"
  shows "lambda_handler env u ev s =
         (\<lparr>statusCode = 404,
           body = json_dumps env (JObj [(''message'', JStr ''Not Found'')])\<rparr>, s)"
  using assms by (rule unrouted)

text \<open>PATCH is not registered under \<open>/projects\<close>.\<close>

theorem unrouted_is_404_witness:
  "path (request ''PATCH'' ''/projects'' None) = Some ''/projects'' \<and>
   (find_handler (handler_path ''/projects'')
      (httpMethod (request ''PATCH'' ''/projects'' None)) :: store handler option) = None \<and>
   lambda_handler example_env ''u1'' (request ''PATCH'' ''/projects'' None) [] =
     (\<lparr>statusCode = 404, body = ''Not Found''\<rparr>, [])"
  using unrouted_is_404 [where ev = "request ''PATCH'' ''/projects'' None"
      and p = "''/projects''" and env = example_env and u = "''u1''" and s = "[]"]
  by (simp add: request_def handler_path_def path_params_def find_handler_def routes_def
      example_env_def mem_env_def example_dumps_def)

text \<open>
  C10. An event without a path gets status 500: \<open>path.startswith\<close> raises on \<open>None\<close>
  and the wrapper answers. An event with the path \<open>/projects\<close>, or a path \<open>/projects/x\<close>
  with no slash in \<open>x\<close>, whose method is missing or is not one registered for that path,
  gets status 404.
\<close>

theorem missing_path_500_missing_method_404:
  fixes env :: "'s env"
  shows "(path ev = None \<longrightarrow>
            lambda_handler env u ev s =
              (\<lparr>statusCode = 500,
                body = json_dumps env (JObj [(''message'',
                  JStr (''An internal error occurred: '' @ quoted ''NoneType'' @
                        '' object has no attribute '' @ quoted ''startswith''))])\<rparr>, s)) \<and>
         (path ev = Some ''/projects'' \<and> httpMethod ev \<notin> {Some ''POST'', Some ''GET''} \<longrightarrow>
            lambda_handler env u ev s =
              (\<lparr>statusCode = 404,
                body = json_dumps env (JObj [(''message'', JStr ''Not Found'')])\<rparr>, s)) \<and>
         (path ev = Some (''/projects/'' @ x) \<and> CHR ''/'' \<notin> set x \<and>
          httpMethod ev \<notin> {Some ''GET'', Some ''PUT'', Some ''DELETE''} \<longrightarrow>
            lambda_handler env u ev s =
              (\<lparr>statusCode = 404,
                body = json_dumps env (JObj [(''message'', JStr ''Not Found'')])\<rparr>, s))"
proof (intro conjI impI)
  assume "path ev = None"
  then show "lambda_handler env u ev s =
      (\<lparr>statusCode = 500,
        body = json_dumps env (JObj [(''message'',
          JStr (''An internal error occurred: '' @ quoted ''NoneType'' @
                '' object has no attribute '' @ quoted ''startswith''))])\<rparr>, s)"
    by (simp add: lambda_handler_def handle_errors_def lambda_handler_body_def
        message_def no_attribute_def error_response_def)
next
  assume a: "path ev = Some ''/projects'' \<and> httpMethod ev \<notin> {Some ''POST'', Some ''GET''}"
  then have h: "(find_handler (handler_path ''/projects'') (httpMethod ev)
                  :: 's handler option) = None"
    by (simp add: handler_path_projects find_handler_None_iff)
  from a have p: "path ev = Some ''/projects''" by simp
  show "lambda_handler env u ev s =
      (\<lparr>statusCode = 404,
        body = json_dumps env (JObj [(''message'', JStr ''Not Found'')])\<rparr>, s)"
    by (rule unrouted[OF p h])
next
  assume a: "path ev = Some (''/projects/'' @ x) \<and> CHR ''/'' \<notin> set x \<and>
          httpMethod ev \<notin> {Some ''GET'', Some ''PUT'', Some ''DELETE''}"
  then have h: "(find_handler (handler_path (''/projects/'' @ x)) (httpMethod ev)
                  :: 's handler option) = None"
    using handler_path_id[of x] by (simp add: find_handler_None_iff)
  from a have p: "path ev = Some (''/projects/'' @ x)" by simp
  show "lambda_handler env u ev s =
      (\<lparr>statusCode = 404,
        body = json_dumps env (JObj [(''message'', JStr ''Not Found'')])\<rparr>, s)"
    by (rule unrouted[OF p h])
qed

text \<open>
  No path: 500 with the description of the AttributeError. No method on \<open>/projects\<close>,
  and POST on \<open>/projects/42\<close>: 404.
\<close>

theorem missing_path_500_missing_method_404_witness:
  "lambda_handler example_env ''u1''
     \<lparr>httpMethod = Some ''GET'', path = None, event.body = None, pathParameters = None\<rparr> [] =
   (\<lparr>statusCode = 500,
     body = ''An internal error occurred: '' @ quoted ''NoneType'' @
            '' object has no attribute '' @ quoted ''startswith''\<rparr>, []) \<and>
   lambda_handler example_env ''u1''
     \<lparr>httpMethod = None, path = Some ''/projects'', event.body = None,
      pathParameters = None\<rparr> [] =
   (\<lparr>statusCode = 404, body = ''Not Found''\<rparr>, []) \<and>
   CHR ''/'' \<notin> set ''42'' \<and>
   lambda_handler example_env ''u1'' (request ''POST'' ''/projects/42'' None) [] =
   (\<lparr>statusCode = 404, body = ''Not Found''\<rparr>, [])"
  using
    missing_path_500_missing_method_404 [where ev = "\<lparr>httpMethod = Some ''GET'', path = None,
        event.body = None, pathParameters = None\<rparr>"
      and env = example_env and u = "''u1''" and s = "[]"]
    missing_path_500_missing_method_404 [where ev = "\<lparr>httpMethod = None,
        path = Some ''/projects'', event.body = None, pathParameters = None\<rparr>"
      and env = example_env and u = "''u1''" and s = "[]"]
    missing_path_500_missing_method_404 [where ev = "request ''POST'' ''/projects/42'' None"
      and x = "''42''" and env = example_env and u = "''u1''" and s = "[]"]
  by (simp add: request_def example_env_def mem_env_def example_dumps_def)

section \<open>The handlers on the table of the specification\<close>

subsection \<open>What each handler returns and stores\<close>

lemma mem_env_sel [simp]:
  "json_loads (mem_env L D) = L"
  "json_dumps (mem_env L D) = D"
  "put_item (table (mem_env L D)) = mem_put_item"
  "scan (table (mem_env L D)) = mem_scan"
  "get_item (table (mem_env L D)) = mem_get_item"
  "update_item (table (mem_env L D)) = mem_update_item"
  "delete_item (table (mem_env L D)) = mem_delete_item"
  by (simp_all add: mem_env_def mem_table_def)

lemma mem_table_sel [simp]:
  "put_item mem_table = mem_put_item"
  "scan mem_table = mem_scan"
  "get_item mem_table = mem_get_item"
  "update_item mem_table = mem_update_item"
  "delete_item mem_table = mem_delete_item"
  by (simp_all add: mem_table_def)

lemma path_id_update [simp]:
  "path_id (ev\<lparr>pathParameters := Some (Some [(''id'', k)])\<rparr>) = Inr k"
  by (simp add: path_id_def)

lemma mem_get_item_Some_iff:
  "mem_get_item k s = (Inr (Some it), s') \<longleftrightarrow>
     s' = s \<and> (\<exists>attrs. map_of s k = Some attrs \<and> it = (''id'', PStr k) # attrs)"
  by (auto simp: mem_get_item_def split: option.splits)

lemma mem_get_item_None_iff:
  "mem_get_item k s = (Inr None, s') \<longleftrightarrow> s' = s \<and> map_of s k = None"
  by (auto simp: mem_get_item_def split: option.splits)

text \<open>
  A value without a number is stored as it is, and \<open>json.dumps\<close> prints what the table
  returns for it.
\<close>

lemma to_json_list_stored:
  "\<forall>x \<in> set xs. to_json (stored x) = Inr x \<Longrightarrow> to_json_list (map stored xs) = Inr xs"
  by (induction xs) auto

lemma to_json_items_stored:
  "\<forall>kv \<in> set kvs. to_json (stored (snd kv)) = Inr (snd kv) \<Longrightarrow>
   to_json_items (map (\<lambda>(k, v). (k, stored v)) kvs) = Inr kvs"
  by (induction kvs) auto

lemma to_json_stored: "number_free v \<Longrightarrow> to_json (stored v) = Inr v"
proof (induction v)
  case (JArr xs)
  then show ?case by (simp add: to_json_list_stored)
next
  case (JObj kvs)
  have "\<forall>kv \<in> set kvs. to_json (stored (snd kv)) = Inr (snd kv)"
  proof
    fix kv assume kv: "kv \<in> set kvs"
    with JObj.prems have "number_free (snd kv)" by (auto simp: case_prod_beta)
    moreover have "snd kv \<in> Basic_BNFs.snds kv" by (cases kv) simp
    ultimately show "to_json (stored (snd kv)) = Inr (snd kv)" using JObj.IH kv by blast
  qed
  then show ?case by (simp add: to_json_items_stored)
qed simp_all

text \<open>A number is stored as a number of the table, and \<open>json.dumps\<close> raises on it.\<close>

lemma to_json_stored_number:
  "to_json (stored (JInt n)) = Inl (not_serializable ''Decimal'')"
  "to_json (stored (JFloat f)) = Inl (not_serializable ''Decimal'')"
  by simp_all

lemma get_by_id_mem:
  assumes "path_id ev = Inr k"
  shows "get_project_by_id (mem_env L D) u ev s =
     (case map_of s k of
        None \<Rightarrow> (Inr \<lparr>statusCode = 404,
                      body = D (JObj [(''message'', JStr ''Project not found'')])\<rparr>, s)
      | Some attrs \<Rightarrow>
          (case to_json (PDict ((''id'', PStr k) # attrs)) of
             Inl e \<Rightarrow> (Inl e, s)
           | Inr j \<Rightarrow> (Inr \<lparr>statusCode = 200, body = D j\<rparr>, s)))"
  using assms
  by (simp add: get_project_by_id_def mem_get_item_def message_def dumps_def
      split: option.splits sum.splits)

lemma new_item_obj:
  "new_item u (JObj kvs) =
     Inr [(''id'', JStr u), (''name'', dict_get kvs ''name''),
          (''description'', dict_get kvs ''description''),
          (''status'', dict_get kvs ''status''),
          (''createdAt'', dict_get kvs ''createdAt'')]"
  by (simp add: new_item_def body_get_def)

lemma update_values_obj:
  "update_values (JObj kvs) =
     Inr [(''name'', dict_get kvs ''name''),
          (''description'', dict_get kvs ''description''),
          (''status'', dict_get kvs ''status'')]"
  by (simp add: update_values_def body_get_def)

lemma create_mem:
  assumes "event.body ev = Some b" and "L b = Inr (JObj kvs)"
  shows "create_project (mem_env L D) u ev s =
     (Inr \<lparr>statusCode = 201,
           body = D (JObj [(''id'', JStr u), (''name'', dict_get kvs ''name''),
                           (''description'', dict_get kvs ''description''),
                           (''status'', dict_get kvs ''status''),
                           (''createdAt'', dict_get kvs ''createdAt'')])\<rparr>,
      AList.update u [(''name'', stored (dict_get kvs ''name'')),
                      (''description'', stored (dict_get kvs ''description'')),
                      (''status'', stored (dict_get kvs ''status'')),
                      (''createdAt'', stored (dict_get kvs ''createdAt''))] s)"
  using assms
  by (simp add: create_project_def loads_body_def new_item_obj mem_put_item_def
      AList.delete_eq stored_item_def)

lemma update_mem:
  assumes "path_id ev = Inr k" and "event.body ev = Some b" and "L b = Inr (JObj kvs)"
  shows "update_project (mem_env L D) u ev s =
     (Inr \<lparr>statusCode = 200,
           body = D (JObj [(''message'', JStr ''Project updated successfully'')])\<rparr>,
      AList.update k
        (AList.update ''status'' (stored (dict_get kvs ''status''))
          (AList.update ''description'' (stored (dict_get kvs ''description''))
            (AList.update ''name'' (stored (dict_get kvs ''name''))
              (case map_of s k of None \<Rightarrow> [] | Some attrs \<Rightarrow> attrs)))) s)"
  using assms
  by (simp add: update_project_def loads_body_def update_values_obj mem_update_item_def
      message_def)

lemma delete_mem:
  assumes "path_id ev = Inr k"
  shows "delete_project (mem_env L D) u ev s =
     (Inr \<lparr>statusCode = 200,
           body = D (JObj [(''message'', JStr ''Project deleted successfully'')])\<rparr>,
      AList.delete k s)"
  using assms by (simp add: delete_project_def mem_delete_item_def message_def)

subsection \<open>From the entry point to a handler\<close>

lemma entry_by_id:
  assumes "CHR ''/'' \<notin> set x"
    and "find_handler ''/projects/{id}'' (Some m) = Some h"
  shows "lambda_handler env u (request m (''/projects/'' @ x) b) s =
         handle_errors h env u
           ((request m (''/projects/'' @ x) b)\<lparr>pathParameters := Some (Some [(''id'', x)])\<rparr>) s"
  using dispatch_by_id[OF assms, of env u "request m (''/projects/'' @ x) b" s]
  by (simp add: lambda_handler_def handle_errors_def request_def)

lemma entry_projects:
  assumes "find_handler ''/projects'' (Some m) = Some h"
  shows "lambda_handler env u (request m ''/projects'' b) s =
         handle_errors h env u
           ((request m ''/projects'' b)\<lparr>pathParameters := Some None\<rparr>) s"
  using dispatch_projects[OF assms, of env u "request m ''/projects'' b" s]
  by (simp add: lambda_handler_def handle_errors_def request_def)

lemma request_sel [simp]:
  "event.body (request m p b) = b"
  "event.body ((request m p b)\<lparr>pathParameters := pp\<rparr>) = b"
  "path_id ((request m p b)\<lparr>pathParameters := Some (Some [(''id'', k)])\<rparr>) = Inr k"
  by (simp_all add: request_def path_id_def)

subsection \<open>Reading an item\<close>

text \<open>
  What \<open>get_project_by_id\<close> returns on the store, called with the path parameter \<open>id\<close>
  bound to \<open>k\<close>: status 404 when the store has no item under \<open>k\<close>; when it has one,
  status 200 with the item as the body if \<open>json.dumps\<close> accepts the item, and the
  exception of \<open>json.dumps\<close> if it does not.
\<close>

lemma get_by_id_found_or_404:
  assumes "path_id ev = Inr k"
  shows "(get_item mem_table k s = (Inr (Some it), s) \<and> to_json (PDict it) = Inr j \<longrightarrow>
            get_project_by_id (mem_env L D) u ev s =
              (Inr \<lparr>statusCode = 200, body = D j\<rparr>, s)) \<and>
         (get_item mem_table k s = (Inr (Some it), s) \<and> to_json (PDict it) = Inl e \<longrightarrow>
            get_project_by_id (mem_env L D) u ev s = (Inl e, s)) \<and>
         (get_item mem_table k s = (Inr None, s) \<longrightarrow>
            get_project_by_id (mem_env L D) u ev s =
              (Inr \<lparr>statusCode = 404,
                    body = D (JObj [(''message'', JStr ''Project not found'')])\<rparr>, s))"
  using get_by_id_mem[OF assms, of L D u s]
  by (auto simp: mem_get_item_Some_iff mem_get_item_None_iff)

text \<open>The definitions an example unfolds.\<close>

lemmas handler_defs =
  lambda_handler_def handle_errors_def lambda_handler_body_def handler_path_def
  path_params_def find_handler_def routes_def create_project_def get_project_by_id_def
  update_project_def delete_project_def get_all_projects_def loads_body_def path_id_def
  new_item_def update_values_def body_get_def dict_get_def message_def error_response_def
  request_def dumps_def not_serializable_def

lemmas example_defs =
  example_env_def example_loads_def example_dumps_def mem_env_def mem_table_def
  mem_put_item_def mem_get_item_def mem_update_item_def mem_delete_item_def mem_scan_def
  stored_item_def down_env_def down_table_def

text \<open>
  C5. For an id that has an item in the store, \<open>get_project_by_id\<close> is to return
  status 200 with the stored item as the body. It does not for an item that holds a
  number: \<open>POST /projects\<close> with the body \<open>{"name": 5}\<close> creates the item \<open>p1\<close> and returns
  status 201 with it; the table then has the item and returns its name as a
  \<open>Decimal\<close>; \<open>json.dumps(item)\<close> raises a TypeError in \<open>get_project_by_id\<close>, and the
  entry point answers \<open>GET /projects/p1\<close> with status 500.
\<close>

theorem get_project_by_id_number_is_500:
  "lambda_handler example_env ''p1'' (request ''POST'' ''/projects'' (Some ''{\"name\": 5}'')) [] =
     (\<lparr>statusCode = 201, body = ''p1''\<rparr>,
      [(''p1'', [(''name'', PDecimal (OfInt 5)), (''description'', PNone),
                 (''status'', PNone), (''createdAt'', PNone)])]) \<and>
   get_item mem_table ''p1''
       [(''p1'', [(''name'', PDecimal (OfInt 5)), (''description'', PNone),
                  (''status'', PNone), (''createdAt'', PNone)])] =
     (Inr (Some [(''id'', PStr ''p1''), (''name'', PDecimal (OfInt 5)),
                 (''description'', PNone), (''status'', PNone), (''createdAt'', PNone)]),
      [(''p1'', [(''name'', PDecimal (OfInt 5)), (''description'', PNone),
                 (''status'', PNone), (''createdAt'', PNone)])]) \<and>
   get_project_by_id example_env ''u2''
       ((request ''GET'' ''/projects/p1'' None)\<lparr>pathParameters := Some (Some [(''id'', ''p1'')])\<rparr>)
       [(''p1'', [(''name'', PDecimal (OfInt 5)), (''description'', PNone),
                  (''status'', PNone), (''createdAt'', PNone)])] =
     (Inl (TypeError ''Object of type Decimal is not JSON serializable''),
      [(''p1'', [(''name'', PDecimal (OfInt 5)), (''description'', PNone),
                 (''status'', PNone), (''createdAt'', PNone)])]) \<and>
   lambda_handler example_env ''u2'' (request ''GET'' ''/projects/p1'' None)
       [(''p1'', [(''name'', PDecimal (OfInt 5)), (''description'', PNone),
                  (''status'', PNone), (''createdAt'', PNone)])] =
     (\<lparr>statusCode = 500,
       body = ''An internal error occurred: Object of type Decimal is not JSON serializable''\<rparr>,
      [(''p1'', [(''name'', PDecimal (OfInt 5)), (''description'', PNone),
                 (''status'', PNone), (''createdAt'', PNone)])])"
  by (simp add: handler_defs example_defs split_no_sep)

subsection \<open>Creating an item\<close>

text \<open>
  \<open>create_project\<close> followed by \<open>get_project_by_id\<close> on the id returned does not give
  status 200 with an id that was not in the store on every request with an object as its
  body. The id is the value of \<open>str(uuid.uuid4())\<close>, which the module does not look up in
  the store: when that value is \<open>u1\<close> and the store has an item under \<open>u1\<close>, the id
  returned was in the store, and the item under it is replaced. And a field that is a
  number comes back from the table as a \<open>Decimal\<close>: after the body \<open>{"name": 5}\<close> the
  item is created with status 201 and read back with status 500.
\<close>

theorem create_then_get_by_id_counterexample:
  "fst (get_item mem_table ''u1'' [(''u1'', [(''name'', PStr ''old'')])]) =
     Inr (Some [(''id'', PStr ''u1''), (''name'', PStr ''old'')]) \<and>
   lambda_handler example_env ''u1'' (request ''POST'' ''/projects'' (Some ''{}''))
       [(''u1'', [(''name'', PStr ''old'')])] =
     (\<lparr>statusCode = 201, body = ''u1''\<rparr>,
      [(''u1'', [(''name'', PNone), (''description'', PNone), (''status'', PNone),
                 (''createdAt'', PNone)])]) \<and>
   lambda_handler example_env ''u1'' (request ''POST'' ''/projects'' (Some ''{\"name\": 5}'')) [] =
     (\<lparr>statusCode = 201, body = ''u1''\<rparr>,
      [(''u1'', [(''name'', PDecimal (OfInt 5)), (''description'', PNone),
                 (''status'', PNone), (''createdAt'', PNone)])]) \<and>
   statusCode (fst (lambda_handler example_env ''u2'' (request ''GET'' ''/projects/u1'' None)
       [(''u1'', [(''name'', PDecimal (OfInt 5)), (''description'', PNone),
                  (''status'', PNone), (''createdAt'', PNone)])])) = 500"
  by (simp add: handler_defs example_defs split_no_sep)

text \<open>
  C4. For a body that parses to an object in which \<open>name\<close>, \<open>description\<close>, \<open>status\<close> and
  \<open>createdAt\<close> hold no number, \<open>create_project\<close> returns status 201 with the created
  item as the body; \<open>get_project_by_id\<close> with that item's id then returns status 200
  with the same item, whose four fields are those of the request (\<open>None\<close> for one it
  lacks) and whose \<open>id\<close> is the value \<open>u\<close> that \<open>str(uuid.uuid4())\<close> gave. The items
  under other ids are as before; so, when \<open>u\<close> was not in the store, every item stored
  before is still there. The same holds through the entry point, for \<open>POST /projects\<close>
  and then \<open>GET /projects/u\<close>.
\<close>

theorem create_then_get_by_id:
  assumes "event.body ev = Some b" and "L b = Inr (JObj kvs)"
    and "\<forall>f \<in> {''name'', ''description'', ''status'', ''createdAt''}.
           number_free (dict_get kvs f)"
  shows "\<exists>it s'.
      create_project (mem_env L D) u ev s =
        (Inr \<lparr>statusCode = 201, body = D (JObj it)\<rparr>, s') \<and>
      (\<forall>u' ev'. path_id ev' = Inr u \<longrightarrow>
         get_project_by_id (mem_env L D) u' ev' s' =
           (Inr \<lparr>statusCode = 200, body = D (JObj it)\<rparr>, s')) \<and>
      map_of it ''id'' = Some (JStr u) \<and>
      map_of it ''name'' = Some (dict_get kvs ''name'') \<and>
      map_of it ''description'' = Some (dict_get kvs ''description'') \<and>
      map_of it ''status'' = Some (dict_get kvs ''status'') \<and>
      map_of it ''createdAt'' = Some (dict_get kvs ''createdAt'') \<and>
      (\<forall>k. k \<noteq> u \<longrightarrow> fst (get_item mem_table k s') = fst (get_item mem_table k s)) \<and>
      (get_item mem_table u s = (Inr None, s) \<longrightarrow>
         (\<forall>k it0. get_item mem_table k s = (Inr (Some it0), s) \<longrightarrow>
            get_item mem_table k s' = (Inr (Some it0), s'))) \<and>
      lambda_handler (mem_env L D) u (request ''POST'' ''/projects'' (Some b)) s =
        (\<lparr>statusCode = 201, body = D (JObj it)\<rparr>, s') \<and>
      (CHR ''/'' \<notin> set u \<longrightarrow>
         (\<forall>u' b'. lambda_handler (mem_env L D) u'
                    (request ''GET'' (''/projects/'' @ u) b') s' =
                  (\<lparr>statusCode = 200, body = D (JObj it)\<rparr>, s')))"
proof -
  let ?attrs = "[(''name'', dict_get kvs ''name''),
                 (''description'', dict_get kvs ''description''),
                 (''status'', dict_get kvs ''status''),
                 (''createdAt'', dict_get kvs ''createdAt'')]"
  let ?held = "[(''name'', stored (dict_get kvs ''name'')),
                (''description'', stored (dict_get kvs ''description'')),
                (''status'', stored (dict_get kvs ''status'')),
                (''createdAt'', stored (dict_get kvs ''createdAt''))]"
  let ?it = "(''id'', JStr u) # ?attrs"
  let ?s' = "AList.update u ?held s"
  have stored: "map_of ?s' u = Some ?held"
    by (simp add: update_conv')
  have printed: "to_json (PDict ((''id'', PStr u) # ?held)) = Inr (JObj ?it)"
    using assms(3) by (simp add: to_json_stored)
  have create: "create_project (mem_env L D) u e s =
      (Inr \<lparr>statusCode = 201, body = D (JObj ?it)\<rparr>, ?s')"
    if "event.body e = Some b" for e
    using create_mem[where L = L and D = D and u = u and s = s, OF that assms(2)] by simp
  have get: "get_project_by_id (mem_env L D) u' ev' ?s' =
      (Inr \<lparr>statusCode = 200, body = D (JObj ?it)\<rparr>, ?s')"
    if "path_id ev' = Inr u" for u' ev'
    using get_by_id_mem[where L = L and D = D and u = u' and s = ?s', OF that] stored printed
    by simp
  have others: "fst (get_item mem_table k ?s') = fst (get_item mem_table k s)"
    if "k \<noteq> u" for k
    using that by (simp add: mem_get_item_def update_conv')
  have kept: "get_item mem_table k ?s' = (Inr (Some it0), ?s')"
    if fresh: "get_item mem_table u s = (Inr None, s)"
      and "get_item mem_table k s = (Inr (Some it0), s)" for k it0
  proof -
    from that have "k \<noteq> u"
      by (auto simp: mem_get_item_Some_iff mem_get_item_None_iff)
    with that show ?thesis by (auto simp: mem_get_item_Some_iff update_conv')
  qed
  have post: "lambda_handler (mem_env L D) u (request ''POST'' ''/projects'' (Some b)) s =
      (\<lparr>statusCode = 201, body = D (JObj ?it)\<rparr>, ?s')"
    using entry_projects[OF find_handler_projects(1), of "mem_env L D" u "Some b" s]
      create[of "(request ''POST'' ''/projects'' (Some b))\<lparr>pathParameters := Some None\<rparr>"]
    by (simp add: handle_errors_def)
  have entry_get: "lambda_handler (mem_env L D) u' (request ''GET'' (''/projects/'' @ u) b') ?s' =
      (\<lparr>statusCode = 200, body = D (JObj ?it)\<rparr>, ?s')"
    if "CHR ''/'' \<notin> set u" for u' b'
    using entry_by_id[OF that find_handler_by_id(1), of "mem_env L D" u' b' ?s']
      get[of "(request ''GET'' (''/projects/'' @ u) b')\<lparr>pathParameters := Some (Some [(''id'', u)])\<rparr>" u']
    by (simp add: handle_errors_def)
  have c1: "create_project (mem_env L D) u ev s =
      (Inr \<lparr>statusCode = 201, body = D (JObj ?it)\<rparr>, ?s')"
    using assms(1) by (rule create)
  have c2: "\<forall>u' ev'. path_id ev' = Inr u \<longrightarrow>
      get_project_by_id (mem_env L D) u' ev' ?s' =
        (Inr \<lparr>statusCode = 200, body = D (JObj ?it)\<rparr>, ?s')"
    using get by blast
  have c3: "map_of ?it ''id'' = Some (JStr u)"
    and c4: "map_of ?it ''name'' = Some (dict_get kvs ''name'')"
    and c5: "map_of ?it ''description'' = Some (dict_get kvs ''description'')"
    and c6: "map_of ?it ''status'' = Some (dict_get kvs ''status'')"
    and c7: "map_of ?it ''createdAt'' = Some (dict_get kvs ''createdAt'')"
    by simp_all
  have c8: "\<forall>k. k \<noteq> u \<longrightarrow>
      fst (get_item mem_table k ?s') = fst (get_item mem_table k s)"
    using others by blast
  have c9: "get_item mem_table u s = (Inr None, s) \<longrightarrow>
      (\<forall>k it0. get_item mem_table k s = (Inr (Some it0), s) \<longrightarrow>
         get_item mem_table k ?s' = (Inr (Some it0), ?s'))"
    using kept by blast
  have c10: "CHR ''/'' \<notin> set u \<longrightarrow>
      (\<forall>u' b'. lambda_handler (mem_env L D) u'
                 (request ''GET'' (''/projects/'' @ u) b') ?s' =
               (\<lparr>statusCode = 200, body = D (JObj ?it)\<rparr>, ?s'))"
    using entry_get by blast
  show ?thesis
    by (rule exI[of _ ?it], rule exI[of _ ?s'])
       (intro conjI c1 c2 c3 c4 c5 c6 c7 c8 c9 post c10)
qed

text \<open>
  A request with a \<open>name\<close> and a \<open>status\<close> on the empty store, then the item read
  back.
\<close>

theorem create_then_get_by_id_witness:
  "event.body (request ''POST'' ''/projects'' (Some ''{\"name\": \"A\", \"status\": \"open\"}'')) =
     Some ''{\"name\": \"A\", \"status\": \"open\"}'' \<and>
   example_loads ''{\"name\": \"A\", \"status\": \"open\"}'' =
     Inr (JObj [(''name'', JStr ''A''), (''status'', JStr ''open'')]) \<and>
   dict_get [(''name'', JStr ''A''), (''status'', JStr ''open'')] ''name'' = JStr ''A'' \<and>
   dict_get [(''name'', JStr ''A''), (''status'', JStr ''open'')] ''description'' = JNull \<and>
   dict_get [(''name'', JStr ''A''), (''status'', JStr ''open'')] ''status'' = JStr ''open'' \<and>
   dict_get [(''name'', JStr ''A''), (''status'', JStr ''open'')] ''createdAt'' = JNull \<and>
   get_item mem_table ''u1'' [] = (Inr None, []) \<and>
   lambda_handler example_env ''u1''
       (request ''POST'' ''/projects'' (Some ''{\"name\": \"A\", \"status\": \"open\"}'')) [] =
     (\<lparr>statusCode = 201, body = ''u1''\<rparr>,
      [(''u1'', [(''name'', PStr ''A''), (''description'', PNone),
                 (''status'', PStr ''open''), (''createdAt'', PNone)])]) \<and>
   get_item mem_table ''u1''
       [(''u1'', [(''name'', PStr ''A''), (''description'', PNone),
                  (''status'', PStr ''open''), (''createdAt'', PNone)])] =
     (Inr (Some [(''id'', PStr ''u1''), (''name'', PStr ''A''), (''description'', PNone),
                 (''status'', PStr ''open''), (''createdAt'', PNone)]),
      [(''u1'', [(''name'', PStr ''A''), (''description'', PNone),
                 (''status'', PStr ''open''), (''createdAt'', PNone)])]) \<and>
   lambda_handler example_env ''u2'' (request ''GET'' ''/projects/u1'' None)
       [(''u1'', [(''name'', PStr ''A''), (''description'', PNone),
                  (''status'', PStr ''open''), (''createdAt'', PNone)])] =
     (\<lparr>statusCode = 200, body = ''u1''\<rparr>,
      [(''u1'', [(''name'', PStr ''A''), (''description'', PNone),
                 (''status'', PStr ''open''), (''createdAt'', PNone)])])"
  using create_then_get_by_id [where
      ev = "request ''POST'' ''/projects'' (Some ''{\"name\": \"A\", \"status\": \"open\"}'')"
      and b = "''{\"name\": \"A\", \"status\": \"open\"}''" and L = example_loads
      and D = example_dumps
      and kvs = "[(''name'', JStr ''A''), (''status'', JStr ''open'')]"
      and u = "''u1''" and s = "[]"]
  by (simp add: handler_defs example_defs split_no_sep)

subsection \<open>Updating an item\<close>

text \<open>
  C6. For an id \<open>k\<close> that has an item in the store and a body that parses to an
  object, \<open>update_project\<close> returns status 200 with the body
  \<open>{"message": "Project updated successfully"}\<close>. In the item stored under \<open>k\<close>
  afterwards, \<open>name\<close>, \<open>description\<close> and \<open>status\<close> have the values of the body (as
  the store holds them) and every other attribute, \<open>id\<close> and \<open>createdAt\<close> among them, is
  as before; the items
  under other ids are as before. The same holds through the entry point for
  \<open>PUT /projects/k\<close>.
\<close>

theorem update_changes_only_three_fields:
  assumes "path_id ev = Inr k" and "event.body ev = Some b" and "L b = Inr (JObj kvs)"
    and "get_item mem_table k s = (Inr (Some it), s)"
  shows "\<exists>it' s'.
      update_project (mem_env L D) u ev s =
        (Inr \<lparr>statusCode = 200,
              body = D (JObj [(''message'', JStr ''Project updated successfully'')])\<rparr>, s') \<and>
      get_item mem_table k s' = (Inr (Some it'), s') \<and>
      (\<forall>f. map_of it' f =
           (if f \<in> {''name'', ''description'', ''status''} then Some (stored (dict_get kvs f))
            else map_of it f)) \<and>
      map_of it' ''id'' = Some (PStr k) \<and> map_of it ''id'' = Some (PStr k) \<and>
      map_of it' ''createdAt'' = map_of it ''createdAt'' \<and>
      (\<forall>k'. k' \<noteq> k \<longrightarrow> fst (get_item mem_table k' s') = fst (get_item mem_table k' s)) \<and>
      (CHR ''/'' \<notin> set k \<longrightarrow>
         lambda_handler (mem_env L D) u (request ''PUT'' (''/projects/'' @ k) (Some b)) s =
           (\<lparr>statusCode = 200,
             body = D (JObj [(''message'', JStr ''Project updated successfully'')])\<rparr>, s'))"
proof -
  from assms(4) obtain attrs where attrs: "map_of s k = Some attrs"
    and it: "it = (''id'', PStr k) # attrs"
    by (auto simp: mem_get_item_Some_iff)
  let ?attrs' = "AList.update ''status'' (stored (dict_get kvs ''status''))
                  (AList.update ''description'' (stored (dict_get kvs ''description''))
                    (AList.update ''name'' (stored (dict_get kvs ''name'')) attrs))"
  let ?it' = "(''id'', PStr k) # ?attrs'"
  let ?s' = "AList.update k ?attrs' s"
  have upd: "update_project (mem_env L D) u e s =
      (Inr \<lparr>statusCode = 200,
            body = D (JObj [(''message'', JStr ''Project updated successfully'')])\<rparr>, ?s')"
    if "path_id e = Inr k" and "event.body e = Some b" for e
    using update_mem[where L = L and D = D and u = u and s = s, OF that assms(3)] attrs
    by simp
  have get: "get_item mem_table k ?s' = (Inr (Some ?it'), ?s')"
    by (simp add: mem_get_item_def update_conv')
  have fields: "map_of ?it' f =
      (if f \<in> {''name'', ''description'', ''status''} then Some (stored (dict_get kvs f))
       else map_of it f)" for f
    by (simp add: it update_conv')
  have others: "fst (get_item mem_table k' ?s') = fst (get_item mem_table k' s)"
    if "k' \<noteq> k" for k'
    using that by (simp add: mem_get_item_def update_conv')
  have entry: "lambda_handler (mem_env L D) u (request ''PUT'' (''/projects/'' @ k) (Some b)) s =
      (\<lparr>statusCode = 200,
        body = D (JObj [(''message'', JStr ''Project updated successfully'')])\<rparr>, ?s')"
    if "CHR ''/'' \<notin> set k"
    using entry_by_id[OF that find_handler_by_id(2), of "mem_env L D" u "Some b" s]
      upd[of "(request ''PUT'' (''/projects/'' @ k) (Some b))\<lparr>pathParameters := Some (Some [(''id'', k)])\<rparr>"]
    by (simp add: handle_errors_def)
  have c1: "update_project (mem_env L D) u ev s =
      (Inr \<lparr>statusCode = 200,
            body = D (JObj [(''message'', JStr ''Project updated successfully'')])\<rparr>, ?s')"
    using assms(1,2) by (rule upd)
  have c3: "\<forall>f. map_of ?it' f =
      (if f \<in> {''name'', ''description'', ''status''} then Some (stored (dict_get kvs f))
       else map_of it f)"
    using fields by blast
  have c4: "map_of ?it' ''id'' = Some (PStr k)" by simp
  have c5: "map_of it ''id'' = Some (PStr k)" by (simp add: it)
  have c6: "map_of ?it' ''createdAt'' = map_of it ''createdAt''"
    by (simp add: it update_conv')
  have c7: "\<forall>k'. k' \<noteq> k \<longrightarrow>
      fst (get_item mem_table k' ?s') = fst (get_item mem_table k' s)"
    using others by blast
  have c8: "CHR ''/'' \<notin> set k \<longrightarrow>
      lambda_handler (mem_env L D) u (request ''PUT'' (''/projects/'' @ k) (Some b)) s =
        (\<lparr>statusCode = 200,
          body = D (JObj [(''message'', JStr ''Project updated successfully'')])\<rparr>, ?s')"
    using entry by blast
  show ?thesis
    by (rule exI[of _ ?it'], rule exI[of _ ?s']) (intro conjI c1 get c3 c4 c5 c6 c7 c8)
qed

text \<open>An update of \<open>p1\<close>: the name changes, \<open>createdAt\<close> stays.\<close>

theorem update_changes_only_three_fields_witness:
  "path_id ((request ''PUT'' ''/projects/p1'' (Some ''{\"name\": \"A\", \"status\": \"open\"}''))
             \<lparr>pathParameters := Some (Some [(''id'', ''p1'')])\<rparr>) = Inr ''p1'' \<and>
   example_loads ''{\"name\": \"A\", \"status\": \"open\"}'' =
     Inr (JObj [(''name'', JStr ''A''), (''status'', JStr ''open'')]) \<and>
   get_item mem_table ''p1''
       [(''p1'', [(''name'', PStr ''B''), (''createdAt'', PStr ''2024-01-01'')])] =
     (Inr (Some [(''id'', PStr ''p1''), (''name'', PStr ''B''),
                 (''createdAt'', PStr ''2024-01-01'')]),
      [(''p1'', [(''name'', PStr ''B''), (''createdAt'', PStr ''2024-01-01'')])]) \<and>
   CHR ''/'' \<notin> set ''p1'' \<and>
   lambda_handler example_env ''u1''
       (request ''PUT'' ''/projects/p1'' (Some ''{\"name\": \"A\", \"status\": \"open\"}''))
       [(''p1'', [(''name'', PStr ''B''), (''createdAt'', PStr ''2024-01-01'')])] =
     (\<lparr>statusCode = 200, body = ''Project updated successfully''\<rparr>,
      [(''p1'', [(''name'', PStr ''A''), (''createdAt'', PStr ''2024-01-01''),
                 (''description'', PNone), (''status'', PStr ''open'')])])"
  using update_changes_only_three_fields [where
      ev = "(request ''PUT'' ''/projects/p1'' (Some ''{\"name\": \"A\", \"status\": \"open\"}''))
             \<lparr>pathParameters := Some (Some [(''id'', ''p1'')])\<rparr>"
      and k = "''p1''" and b = "''{\"name\": \"A\", \"status\": \"open\"}''"
      and L = example_loads and D = example_dumps
      and kvs = "[(''name'', JStr ''A''), (''status'', JStr ''open'')]"
      and s = "[(''p1'', [(''name'', PStr ''B''), (''createdAt'', PStr ''2024-01-01'')])]"
      and it = "[(''id'', PStr ''p1''), (''name'', PStr ''B''),
                 (''createdAt'', PStr ''2024-01-01'')]"
      and u = "''u1''"]
  by (simp add: handler_defs example_defs split_no_sep)

subsection \<open>Deleting an item\<close>

text \<open>
  C7. For an id \<open>k\<close> that has an item in the store, \<open>delete_project\<close> returns status
  200 with the body \<open>{"message": "Project deleted successfully"}\<close>; afterwards the
  store has no item under \<open>k\<close> and \<open>get_project_by_id\<close> on \<open>k\<close> returns status 404.
  The same holds through the entry point for \<open>DELETE /projects/k\<close> and then
  \<open>GET /projects/k\<close>.
\<close>

theorem delete_then_get_is_404:
  assumes "path_id ev = Inr k" and "get_item mem_table k s = (Inr (Some it), s)"
  shows "\<exists>s'.
      delete_project (mem_env L D) u ev s =
        (Inr \<lparr>statusCode = 200,
              body = D (JObj [(''message'', JStr ''Project deleted successfully'')])\<rparr>, s') \<and>
      get_item mem_table k s' = (Inr None, s') \<and>
      (\<forall>u' ev'. path_id ev' = Inr k \<longrightarrow>
         get_project_by_id (mem_env L D) u' ev' s' =
           (Inr \<lparr>statusCode = 404,
                 body = D (JObj [(''message'', JStr ''Project not found'')])\<rparr>, s')) \<and>
      (CHR ''/'' \<notin> set k \<longrightarrow>
         lambda_handler (mem_env L D) u (request ''DELETE'' (''/projects/'' @ k) b) s =
           (\<lparr>statusCode = 200,
             body = D (JObj [(''message'', JStr ''Project deleted successfully'')])\<rparr>, s') \<and>
         (\<forall>u' b'. lambda_handler (mem_env L D) u' (request ''GET'' (''/projects/'' @ k) b') s' =
           (\<lparr>statusCode = 404,
             body = D (JObj [(''message'', JStr ''Project not found'')])\<rparr>, s')))"
proof -
  let ?s' = "AList.delete k s"
  have gone: "map_of ?s' k = None" by (simp add: delete_conv')
  have del: "delete_project (mem_env L D) u e s =
      (Inr \<lparr>statusCode = 200,
            body = D (JObj [(''message'', JStr ''Project deleted successfully'')])\<rparr>, ?s')"
    if "path_id e = Inr k" for e
    using that by (rule delete_mem)
  have get: "get_project_by_id (mem_env L D) u' ev' ?s' =
      (Inr \<lparr>statusCode = 404,
            body = D (JObj [(''message'', JStr ''Project not found'')])\<rparr>, ?s')"
    if "path_id ev' = Inr k" for u' ev'
    using get_by_id_mem[where L = L and D = D and u = u' and s = ?s', OF that] gone by simp
  have entry_del: "lambda_handler (mem_env L D) u (request ''DELETE'' (''/projects/'' @ k) b) s =
      (\<lparr>statusCode = 200,
        body = D (JObj [(''message'', JStr ''Project deleted successfully'')])\<rparr>, ?s')"
    if "CHR ''/'' \<notin> set k"
    using entry_by_id[OF that find_handler_by_id(3), of "mem_env L D" u b s]
      del[of "(request ''DELETE'' (''/projects/'' @ k) b)\<lparr>pathParameters := Some (Some [(''id'', k)])\<rparr>"]
    by (simp add: handle_errors_def)
  have entry_get: "lambda_handler (mem_env L D) u' (request ''GET'' (''/projects/'' @ k) b') ?s' =
      (\<lparr>statusCode = 404,
        body = D (JObj [(''message'', JStr ''Project not found'')])\<rparr>, ?s')"
    if "CHR ''/'' \<notin> set k" for u' b'
    using entry_by_id[OF that find_handler_by_id(1), of "mem_env L D" u' b' ?s']
      get[of "(request ''GET'' (''/projects/'' @ k) b')\<lparr>pathParameters := Some (Some [(''id'', k)])\<rparr>" u']
    by (simp add: handle_errors_def)
  have c1: "delete_project (mem_env L D) u ev s =
      (Inr \<lparr>statusCode = 200,
            body = D (JObj [(''message'', JStr ''Project deleted successfully'')])\<rparr>, ?s')"
    using assms(1) by (rule del)
  have c2: "get_item mem_table k ?s' = (Inr None, ?s')"
    using gone by (simp add: mem_get_item_def)
  have c3: "\<forall>u' ev'. path_id ev' = Inr k \<longrightarrow>
      get_project_by_id (mem_env L D) u' ev' ?s' =
        (Inr \<lparr>statusCode = 404,
              body = D (JObj [(''message'', JStr ''Project not found'')])\<rparr>, ?s')"
    using get by blast
  have c4: "CHR ''/'' \<notin> set k \<longrightarrow>
      lambda_handler (mem_env L D) u (request ''DELETE'' (''/projects/'' @ k) b) s =
        (\<lparr>statusCode = 200,
          body = D (JObj [(''message'', JStr ''Project deleted successfully'')])\<rparr>, ?s') \<and>
      (\<forall>u' b'. lambda_handler (mem_env L D) u' (request ''GET'' (''/projects/'' @ k) b') ?s' =
        (\<lparr>statusCode = 404,
          body = D (JObj [(''message'', JStr ''Project not found'')])\<rparr>, ?s'))"
    using entry_del entry_get by blast
  show ?thesis
    by (rule exI[of _ ?s']) (intro conjI c1 c2 c3 c4)
qed

text \<open>\<open>p1\<close> deleted, then looked up.\<close>

theorem delete_then_get_is_404_witness:
  "path_id ((request ''DELETE'' ''/projects/p1'' None)
             \<lparr>pathParameters := Some (Some [(''id'', ''p1'')])\<rparr>) = Inr ''p1'' \<and>
   get_item mem_table ''p1'' [(''p1'', [(''name'', PStr ''B'')])] =
     (Inr (Some [(''id'', PStr ''p1''), (''name'', PStr ''B'')]),
      [(''p1'', [(''name'', PStr ''B'')])]) \<and>
   CHR ''/'' \<notin> set ''p1'' \<and>
   lambda_handler example_env ''u1'' (request ''DELETE'' ''/projects/p1'' None)
       [(''p1'', [(''name'', PStr ''B'')])] =
     (\<lparr>statusCode = 200, body = ''Project deleted successfully''\<rparr>, []) \<and>
   lambda_handler example_env ''u2'' (request ''GET'' ''/projects/p1'' None) [] =
     (\<lparr>statusCode = 404, body = ''Project not found''\<rparr>, [])"
  using delete_then_get_is_404 [where
      ev = "(request ''DELETE'' ''/projects/p1'' None)\<lparr>pathParameters := Some (Some [(''id'', ''p1'')])\<rparr>"
      and k = "''p1''" and L = example_loads and D = example_dumps
      and s = "[(''p1'', [(''name'', PStr ''B'')])]"
      and it = "[(''id'', PStr ''p1''), (''name'', PStr ''B'')]"
      and u = "''u1''" and b = None]
  by (simp add: handler_defs example_defs split_no_sep)

subsection \<open>Ids that are not in the store\<close>

text \<open>
  C8. For an id \<open>k\<close> that has no item in the store, \<open>update_project\<close> (with a body
  that parses to an object) and \<open>delete_project\<close> return their status 200 responses;
  the response of either is the same on every store, so an id that is missing is not
  told from one that is there. The same holds through the entry point.
\<close>

theorem update_delete_absent_id_succeed:
  assumes "path_id ev = Inr k" and "get_item mem_table k s = (Inr None, s)"
  shows "(event.body ev = Some b \<and> L b = Inr (JObj kvs) \<longrightarrow>
            fst (update_project (mem_env L D) u ev s) =
              Inr \<lparr>statusCode = 200,
                    body = D (JObj [(''message'', JStr ''Project updated successfully'')])\<rparr> \<and>
            (\<forall>s2. fst (update_project (mem_env L D) u ev s2) =
                  fst (update_project (mem_env L D) u ev s))) \<and>
         fst (delete_project (mem_env L D) u ev s) =
           Inr \<lparr>statusCode = 200,
                 body = D (JObj [(''message'', JStr ''Project deleted successfully'')])\<rparr> \<and>
         (\<forall>s2. fst (delete_project (mem_env L D) u ev s2) =
               fst (delete_project (mem_env L D) u ev s)) \<and>
         (CHR ''/'' \<notin> set k \<and> L b = Inr (JObj kvs) \<longrightarrow>
            fst (lambda_handler (mem_env L D) u
                   (request ''PUT'' (''/projects/'' @ k) (Some b)) s) =
              \<lparr>statusCode = 200,
                body = D (JObj [(''message'', JStr ''Project updated successfully'')])\<rparr>) \<and>
         (CHR ''/'' \<notin> set k \<longrightarrow>
            fst (lambda_handler (mem_env L D) u
                   (request ''DELETE'' (''/projects/'' @ k) b') s) =
              \<lparr>statusCode = 200,
                body = D (JObj [(''message'', JStr ''Project deleted successfully'')])\<rparr>)"
proof -
  have upd: "fst (update_project (mem_env L D) u e s2) =
      Inr \<lparr>statusCode = 200,
            body = D (JObj [(''message'', JStr ''Project updated successfully'')])\<rparr>"
    if "path_id e = Inr k" and "event.body e = Some b" and "L b = Inr (JObj kvs)" for e s2
    using update_mem[where L = L and D = D and u = u and s = s2, OF that] by simp
  have del: "fst (delete_project (mem_env L D) u e s2) =
      Inr \<lparr>statusCode = 200,
            body = D (JObj [(''message'', JStr ''Project deleted successfully'')])\<rparr>"
    if "path_id e = Inr k" for e s2
    using delete_mem[where L = L and D = D and u = u and s = s2, OF that] by simp
  have c1: "event.body ev = Some b \<and> L b = Inr (JObj kvs) \<longrightarrow>
      fst (update_project (mem_env L D) u ev s) =
        Inr \<lparr>statusCode = 200,
              body = D (JObj [(''message'', JStr ''Project updated successfully'')])\<rparr> \<and>
      (\<forall>s2. fst (update_project (mem_env L D) u ev s2) =
            fst (update_project (mem_env L D) u ev s))"
    using upd[OF assms(1)] by simp
  have c2: "fst (delete_project (mem_env L D) u ev s) =
      Inr \<lparr>statusCode = 200,
            body = D (JObj [(''message'', JStr ''Project deleted successfully'')])\<rparr>"
    using assms(1) by (rule del)
  have c3: "\<forall>s2. fst (delete_project (mem_env L D) u ev s2) =
      fst (delete_project (mem_env L D) u ev s)"
    using del[OF assms(1)] by simp
  have c4: "CHR ''/'' \<notin> set k \<and> L b = Inr (JObj kvs) \<longrightarrow>
      fst (lambda_handler (mem_env L D) u
             (request ''PUT'' (''/projects/'' @ k) (Some b)) s) =
        \<lparr>statusCode = 200,
          body = D (JObj [(''message'', JStr ''Project updated successfully'')])\<rparr>"
  proof
    assume a: "CHR ''/'' \<notin> set k \<and> L b = Inr (JObj kvs)"
    then have slash: "CHR ''/'' \<notin> set k" and parsed: "L b = Inr (JObj kvs)" by simp_all
    let ?e = "(request ''PUT'' (''/projects/'' @ k) (Some b))\<lparr>pathParameters := Some (Some [(''id'', k)])\<rparr>"
    have "fst (update_project (mem_env L D) u ?e s) =
        Inr \<lparr>statusCode = 200,
              body = D (JObj [(''message'', JStr ''Project updated successfully'')])\<rparr>"
      by (rule upd) (simp_all add: parsed)
    then show "fst (lambda_handler (mem_env L D) u
             (request ''PUT'' (''/projects/'' @ k) (Some b)) s) =
        \<lparr>statusCode = 200,
          body = D (JObj [(''message'', JStr ''Project updated successfully'')])\<rparr>"
      using entry_by_id[OF slash find_handler_by_id(2), of "mem_env L D" u "Some b" s]
      by (simp add: handle_errors_def split: prod.splits sum.splits)
  qed
  have c5: "CHR ''/'' \<notin> set k \<longrightarrow>
      fst (lambda_handler (mem_env L D) u
             (request ''DELETE'' (''/projects/'' @ k) b') s) =
        \<lparr>statusCode = 200,
          body = D (JObj [(''message'', JStr ''Project deleted successfully'')])\<rparr>"
  proof
    assume slash: "CHR ''/'' \<notin> set k"
    let ?e = "(request ''DELETE'' (''/projects/'' @ k) b')\<lparr>pathParameters := Some (Some [(''id'', k)])\<rparr>"
    have "fst (delete_project (mem_env L D) u ?e s) =
        Inr \<lparr>statusCode = 200,
              body = D (JObj [(''message'', JStr ''Project deleted successfully'')])\<rparr>"
      by (rule del) simp
    then show "fst (lambda_handler (mem_env L D) u
             (request ''DELETE'' (''/projects/'' @ k) b') s) =
        \<lparr>statusCode = 200,
          body = D (JObj [(''message'', JStr ''Project deleted successfully'')])\<rparr>"
      using entry_by_id[OF slash find_handler_by_id(3), of "mem_env L D" u b' s]
      by (simp add: handle_errors_def split: prod.splits sum.splits)
  qed
  show ?thesis by (intro conjI c1 c2 c3 c4 c5)
qed

text \<open>An update and a delete of \<open>p9\<close> on the empty store.\<close>

theorem update_delete_absent_id_succeed_witness:
  "path_id ((request ''PUT'' ''/projects/p9'' (Some ''{}''))
             \<lparr>pathParameters := Some (Some [(''id'', ''p9'')])\<rparr>) = Inr ''p9'' \<and>
   get_item mem_table ''p9'' [] = (Inr None, []) \<and>
   example_loads ''{}'' = Inr (JObj []) \<and>
   CHR ''/'' \<notin> set ''p9'' \<and>
   fst (lambda_handler example_env ''u1'' (request ''PUT'' ''/projects/p9'' (Some ''{}'')) []) =
     \<lparr>statusCode = 200, body = ''Project updated successfully''\<rparr> \<and>
   fst (lambda_handler example_env ''u1'' (request ''DELETE'' ''/projects/p9'' None) []) =
     \<lparr>statusCode = 200, body = ''Project deleted successfully''\<rparr>"
  using update_delete_absent_id_succeed [where
      ev = "(request ''PUT'' ''/projects/p9'' (Some ''{}''))\<lparr>pathParameters := Some (Some [(''id'', ''p9'')])\<rparr>"
      and k = "''p9''" and L = example_loads and D = example_dumps and s = "[]"
      and b = "''{}''" and kvs = "[]" and u = "''u1''" and b' = None]
  by (simp add: handler_defs example_defs split_no_sep)

subsection \<open>Bodies that lack fields\<close>

text \<open>
  C9. For a body that parses to an object, whatever fields it lacks,
  \<open>create_project\<close> returns status 201; the item in the response is the item given to
  the store, which the store then has, and in both each of \<open>name\<close>, \<open>description\<close>,
  \<open>status\<close> and \<open>createdAt\<close> that the body lacks is \<open>None\<close>. The same holds through the
  entry point for \<open>POST /projects\<close>.
\<close>

theorem create_missing_fields_are_null:
  assumes "event.body ev = Some b" and "L b = Inr (JObj kvs)"
  shows "\<exists>it s'.
      create_project (mem_env L D) u ev s =
        (Inr \<lparr>statusCode = 201, body = D (JObj it)\<rparr>, s') \<and>
      get_item mem_table u s' = (Inr (Some (stored_item it)), s') \<and>
      (\<forall>f \<in> {''name'', ''description'', ''status'', ''createdAt''}.
         map_of kvs f = None \<longrightarrow>
           map_of it f = Some JNull \<and> map_of (stored_item it) f = Some PNone) \<and>
      lambda_handler (mem_env L D) u (request ''POST'' ''/projects'' (Some b)) s =
        (\<lparr>statusCode = 201, body = D (JObj it)\<rparr>, s')"
proof -
  let ?attrs = "[(''name'', dict_get kvs ''name''),
                 (''description'', dict_get kvs ''description''),
                 (''status'', dict_get kvs ''status''),
                 (''createdAt'', dict_get kvs ''createdAt'')]"
  let ?it = "(''id'', JStr u) # ?attrs"
  let ?s' = "AList.update u (stored_item ?attrs) s"
  have create: "create_project (mem_env L D) u e s =
      (Inr \<lparr>statusCode = 201, body = D (JObj ?it)\<rparr>, ?s')"
    if "event.body e = Some b" for e
    using create_mem[where L = L and D = D and u = u and s = s, OF that assms(2)]
    by (simp add: stored_item_def)
  have c1: "create_project (mem_env L D) u ev s =
      (Inr \<lparr>statusCode = 201, body = D (JObj ?it)\<rparr>, ?s')"
    using assms(1) by (rule create)
  have c2: "get_item mem_table u ?s' = (Inr (Some (stored_item ?it)), ?s')"
    by (simp add: mem_get_item_def update_conv' stored_item_def)
  have c3: "\<forall>f \<in> {''name'', ''description'', ''status'', ''createdAt''}.
      map_of kvs f = None \<longrightarrow>
        map_of ?it f = Some JNull \<and> map_of (stored_item ?it) f = Some PNone"
    by (simp add: dict_get_def stored_item_def)
  have c4: "lambda_handler (mem_env L D) u (request ''POST'' ''/projects'' (Some b)) s =
      (\<lparr>statusCode = 201, body = D (JObj ?it)\<rparr>, ?s')"
    using entry_projects[OF find_handler_projects(1), of "mem_env L D" u "Some b" s]
      create[of "(request ''POST'' ''/projects'' (Some b))\<lparr>pathParameters := Some None\<rparr>"]
    by (simp add: handle_errors_def)
  show ?thesis
    by (rule exI[of _ ?it], rule exI[of _ ?s']) (intro conjI c1 c2 c3 c4)
qed

text \<open>The empty object as the body: every field of the item is \<open>None\<close>.\<close>

theorem create_missing_fields_are_null_witness:
  "event.body (request ''POST'' ''/projects'' (Some ''{}'')) = Some ''{}'' \<and>
   example_loads ''{}'' = Inr (JObj []) \<and>
   map_of ([] :: (string \<times> json) list) ''name'' = None \<and>
   lambda_handler example_env ''u1'' (request ''POST'' ''/projects'' (Some ''{}'')) [] =
     (\<lparr>statusCode = 201, body = ''u1''\<rparr>,
      [(''u1'', [(''name'', PNone), (''description'', PNone), (''status'', PNone),
                 (''createdAt'', PNone)])])"
  using create_missing_fields_are_null [where
      ev = "request ''POST'' ''/projects'' (Some ''{}'')" and b = "''{}''"
      and L = example_loads and D = example_dumps and kvs = "[]" and u = "''u1''" and s = "[]"]
  by (simp add: handler_defs example_defs split_no_sep)

section \<open>The error wrapper\<close>

subsection \<open>Where a request can raise\<close>

lemma entry_create:
  "lambda_handler env u (request ''POST'' ''/projects'' b) s =
   handle_errors create_project env u
     ((request ''POST'' ''/projects'' b)\<lparr>pathParameters := Some None\<rparr>) s"
  by (rule entry_projects) (rule find_handler_projects(1))

lemma entry_get_all:
  "lambda_handler env u (request ''GET'' ''/projects'' b) s =
   handle_errors get_all_projects env u
     ((request ''GET'' ''/projects'' b)\<lparr>pathParameters := Some None\<rparr>) s"
  by (rule entry_projects) (rule find_handler_projects(2))

lemma raised_parse_create:
  assumes "json_loads env b = Inl e"
  shows "lambda_handler env u (request ''POST'' ''/projects'' (Some b)) s =
         (error_response env e, s)"
  using assms
  by (simp add: entry_create handle_errors_def create_project_def loads_body_def)

lemma raised_parse_update:
  assumes "json_loads env b = Inl e" and "CHR ''/'' \<notin> set x"
  shows "lambda_handler env u (request ''PUT'' (''/projects/'' @ x) (Some b)) s =
         (error_response env e, s)"
  using assms(1) entry_by_id[OF assms(2) find_handler_by_id(2), of env u "Some b" s]
  by (simp add: handle_errors_def update_project_def loads_body_def)

lemma raised_no_body:
  "lambda_handler env u (request ''POST'' ''/projects'' None) s =
   (error_response env
      (TypeError ''the JSON object must be str, bytes or bytearray, not NoneType''), s)"
  by (simp add: entry_create handle_errors_def create_project_def loads_body_def)

lemma raised_not_object:
  assumes "json_loads env b = Inr bv" and "\<forall>kvs. bv \<noteq> JObj kvs"
  shows "lambda_handler env u (request ''POST'' ''/projects'' (Some b)) s =
         (error_response env (no_attribute (type_name bv) ''get''), s)"
  using assms
  by (cases bv)
     (simp_all add: entry_create handle_errors_def create_project_def loads_body_def
        new_item_def body_get_def)

lemma raised_put_item:
  assumes "json_loads env b = Inr bv" and "new_item u bv = Inr it"
    and "put_item (table env) it s = (Inl e, s2)"
  shows "lambda_handler env u (request ''POST'' ''/projects'' (Some b)) s =
         (error_response env e, s2)"
  using assms
  by (simp add: entry_create handle_errors_def create_project_def loads_body_def)

lemma raised_scan:
  assumes "scan (table env) s = (Inl e, s2)"
  shows "lambda_handler env u (request ''GET'' ''/projects'' b) s = (error_response env e, s2)"
  using assms
  by (simp add: entry_get_all handle_errors_def get_all_projects_def)

lemma raised_get_item:
  assumes "CHR ''/'' \<notin> set x" and "get_item (table env) x s = (Inl e, s2)"
  shows "lambda_handler env u (request ''GET'' (''/projects/'' @ x) b) s =
         (error_response env e, s2)"
  using assms(2) entry_by_id[OF assms(1) find_handler_by_id(1), of env u b s]
  by (simp add: handle_errors_def get_project_by_id_def)

lemma raised_dumps_item:
  assumes "CHR ''/'' \<notin> set x" and "get_item (table env) x s = (Inr (Some it), t)"
    and "it \<noteq> []" and "to_json (PDict it) = Inl e"
  shows "lambda_handler env u (request ''GET'' (''/projects/'' @ x) b) s =
         (error_response env e, t)"
  using assms(2-) entry_by_id[OF assms(1) find_handler_by_id(1), of env u b s]
  by (simp add: handle_errors_def get_project_by_id_def dumps_def)

lemma raised_dumps_items:
  assumes "scan (table env) s = (Inr items, t)"
    and "to_json (PList (map PDict items)) = Inl e"
  shows "lambda_handler env u (request ''GET'' ''/projects'' b) s = (error_response env e, t)"
  using assms
  by (simp add: entry_get_all handle_errors_def get_all_projects_def dumps_def)

lemma raised_update_item:
  assumes "CHR ''/'' \<notin> set x" and "json_loads env b = Inr bv"
    and "update_values bv = Inr vals" and "update_item (table env) x vals s = (Inl e, s2)"
  shows "lambda_handler env u (request ''PUT'' (''/projects/'' @ x) (Some b)) s =
         (error_response env e, s2)"
  using assms(2-) entry_by_id[OF assms(1) find_handler_by_id(2), of env u "Some b" s]
  by (simp add: handle_errors_def update_project_def loads_body_def)

lemma raised_delete_item:
  assumes "CHR ''/'' \<notin> set x" and "delete_item (table env) x s = (Inl e, s2)"
  shows "lambda_handler env u (request ''DELETE'' (''/projects/'' @ x) b) s =
         (error_response env e, s2)"
  using assms(2) entry_by_id[OF assms(1) find_handler_by_id(3), of env u b s]
  by (simp add: handle_errors_def delete_project_def)

text \<open>The wrapper returns what the router returned, or the response to what it raised.\<close>

lemma responds:
  "\<exists>r s'. lambda_handler env u ev s = (r, s') \<and>
      (lambda_handler_body env u ev s = (Inr r, s') \<or>
       (\<exists>e. lambda_handler_body env u ev s = (Inl e, s') \<and> r = error_response env e))"
proof (cases "lambda_handler_body env u ev s")
  case (Pair res s')
  then show ?thesis
    by (cases res) (simp_all add: lambda_handler_def handle_errors_def)
qed

text \<open>
  C3. On every event, over any parser, printer and table, the entry point returns a
  response: the one the router and the handler produced, or, when they raised \<open>e\<close>,
  status 500 with the body \<open>{"message": "An internal error occurred: " + str(e)}\<close>. In
  particular it does so when \<open>json.loads\<close> raises on the body of a create or an
  update, when the body is missing or is not an object, when any of the five calls on
  the table raises, and when \<open>json.dumps\<close> raises on what the table returned.
\<close>

theorem lambda_handler_never_raises:
  fixes env :: "'s env"
  shows
    "(\<exists>r s'. lambda_handler env u ev s = (r, s') \<and>
        (lambda_handler_body env u ev s = (Inr r, s') \<or>
         (\<exists>e. lambda_handler_body env u ev s = (Inl e, s') \<and> r = error_response env e))) \<and>
     error_response env e =
       \<lparr>statusCode = 500,
        body = json_dumps env
          (JObj [(''message'', JStr (''An internal error occurred: '' @ str_exn e))])\<rparr> \<and>
     (json_loads env b = Inl e \<longrightarrow>
        lambda_handler env u (request ''POST'' ''/projects'' (Some b)) s =
          (error_response env e, s)) \<and>
     (json_loads env b = Inl e \<and> CHR ''/'' \<notin> set x \<longrightarrow>
        lambda_handler env u (request ''PUT'' (''/projects/'' @ x) (Some b)) s =
          (error_response env e, s)) \<and>
     lambda_handler env u (request ''POST'' ''/projects'' None) s =
       (error_response env
          (TypeError ''the JSON object must be str, bytes or bytearray, not NoneType''), s) \<and>
     (json_loads env b = Inr bv \<and> (\<forall>kvs. bv \<noteq> JObj kvs) \<longrightarrow>
        lambda_handler env u (request ''POST'' ''/projects'' (Some b)) s =
          (error_response env (no_attribute (type_name bv) ''get''), s)) \<and>
     (json_loads env b = Inr bv \<and> new_item u bv = Inr it \<and>
      put_item (table env) it s = (Inl e, t) \<longrightarrow>
        lambda_handler env u (request ''POST'' ''/projects'' (Some b)) s =
          (error_response env e, t)) \<and>
     (scan (table env) s = (Inl e, t) \<longrightarrow>
        lambda_handler env u (request ''GET'' ''/projects'' c) s =
          (error_response env e, t)) \<and>
     (CHR ''/'' \<notin> set x \<and> get_item (table env) x s = (Inl e, t) \<longrightarrow>
        lambda_handler env u (request ''GET'' (''/projects/'' @ x) c) s =
          (error_response env e, t)) \<and>
     (CHR ''/'' \<notin> set x \<and> json_loads env b = Inr bv \<and> update_values bv = Inr vals \<and>
      update_item (table env) x vals s = (Inl e, t) \<longrightarrow>
        lambda_handler env u (request ''PUT'' (''/projects/'' @ x) (Some b)) s =
          (error_response env e, t)) \<and>
     (CHR ''/'' \<notin> set x \<and> delete_item (table env) x s = (Inl e, t) \<longrightarrow>
        lambda_handler env u (request ''DELETE'' (''/projects/'' @ x) c) s =
          (error_response env e, t)) \<and>
     (CHR ''/'' \<notin> set x \<and> get_item (table env) x s = (Inr (Some row), t) \<and> row \<noteq> [] \<and>
      to_json (PDict row) = Inl e \<longrightarrow>
        lambda_handler env u (request ''GET'' (''/projects/'' @ x) c) s =
          (error_response env e, t)) \<and>
     (scan (table env) s = (Inr rows, t) \<and> to_json (PList (map PDict rows)) = Inl e \<longrightarrow>
        lambda_handler env u (request ''GET'' ''/projects'' c) s =
          (error_response env e, t))"
  apply (intro conjI impI)
              apply (rule responds)
           apply (simp add: error_response_def message_def)
          apply (erule raised_parse_create)
         apply (erule conjE, erule (1) raised_parse_update)
        apply (rule raised_no_body)
       apply (erule conjE, erule (1) raised_not_object)
      apply (elim conjE, erule (2) raised_put_item)
     apply (erule raised_scan)
    apply (erule conjE, erule (1) raised_get_item)
     apply (elim conjE, erule (3) raised_update_item)
    apply (erule conjE, erule (1) raised_delete_item)
   apply (elim conjE, erule (3) raised_dumps_item)
  apply (erule conjE, erule (1) raised_dumps_items)
  done

text \<open>
  A body that does not parse, a table on which every call raises, and a store that
  holds a number.
\<close>

theorem lambda_handler_never_raises_witness:
  "json_loads down_env ''oops'' =
     Inl (ValueError ''Expecting value: line 1 column 1 (char 0)'') \<and>
   lambda_handler down_env ''u1'' (request ''POST'' ''/projects'' (Some ''oops'')) () =
     (\<lparr>statusCode = 500,
       body = ''An internal error occurred: Expecting value: line 1 column 1 (char 0)''\<rparr>, ()) \<and>
   CHR ''/'' \<notin> set ''42'' \<and>
   lambda_handler down_env ''u1'' (request ''PUT'' ''/projects/42'' (Some ''oops'')) () =
     (\<lparr>statusCode = 500,
       body = ''An internal error occurred: Expecting value: line 1 column 1 (char 0)''\<rparr>, ()) \<and>
   json_loads down_env ''{}'' = Inr (JObj []) \<and>
   new_item ''u1'' (JObj []) =
     Inr [(''id'', JStr ''u1''), (''name'', JNull), (''description'', JNull),
          (''status'', JNull), (''createdAt'', JNull)] \<and>
   put_item (table down_env)
       [(''id'', JStr ''u1''), (''name'', JNull), (''description'', JNull),
        (''status'', JNull), (''createdAt'', JNull)] () =
     (Inl (ClientError ''Service unavailable''), ()) \<and>
   lambda_handler down_env ''u1'' (request ''POST'' ''/projects'' (Some ''{}'')) () =
     (\<lparr>statusCode = 500, body = ''An internal error occurred: Service unavailable''\<rparr>, ()) \<and>
   scan (table down_env) () = (Inl (ClientError ''Service unavailable''), ()) \<and>
   lambda_handler down_env ''u1'' (request ''GET'' ''/projects'' None) () =
     (\<lparr>statusCode = 500, body = ''An internal error occurred: Service unavailable''\<rparr>, ()) \<and>
   get_item (table down_env) ''42'' () = (Inl (ClientError ''Service unavailable''), ()) \<and>
   lambda_handler down_env ''u1'' (request ''GET'' ''/projects/42'' None) () =
     (\<lparr>statusCode = 500, body = ''An internal error occurred: Service unavailable''\<rparr>, ()) \<and>
   update_values (JObj []) =
     Inr [(''name'', JNull), (''description'', JNull), (''status'', JNull)] \<and>
   update_item (table down_env) ''42''
       [(''name'', JNull), (''description'', JNull), (''status'', JNull)] () =
     (Inl (ClientError ''Service unavailable''), ()) \<and>
   lambda_handler down_env ''u1'' (request ''PUT'' ''/projects/42'' (Some ''{}'')) () =
     (\<lparr>statusCode = 500, body = ''An internal error occurred: Service unavailable''\<rparr>, ()) \<and>
   delete_item (table down_env) ''42'' () = (Inl (ClientError ''Service unavailable''), ()) \<and>
   lambda_handler down_env ''u1'' (request ''DELETE'' ''/projects/42'' None) () =
     (\<lparr>statusCode = 500, body = ''An internal error occurred: Service unavailable''\<rparr>, ()) \<and>
   get_item (table example_env) ''42'' [(''42'', [(''name'', PDecimal (OfInt 5))])] =
     (Inr (Some [(''id'', PStr ''42''), (''name'', PDecimal (OfInt 5))]),
      [(''42'', [(''name'', PDecimal (OfInt 5))])]) \<and>
   to_json (PDict [(''id'', PStr ''42''), (''name'', PDecimal (OfInt 5))]) =
     Inl (TypeError ''Object of type Decimal is not JSON serializable'') \<and>
   lambda_handler example_env ''u1'' (request ''GET'' ''/projects/42'' None)
       [(''42'', [(''name'', PDecimal (OfInt 5))])] =
     (\<lparr>statusCode = 500,
       body = ''An internal error occurred: Object of type Decimal is not JSON serializable''\<rparr>,
      [(''42'', [(''name'', PDecimal (OfInt 5))])]) \<and>
   scan (table example_env) [(''42'', [(''name'', PDecimal (OfInt 5))])] =
     (Inr [[(''id'', PStr ''42''), (''name'', PDecimal (OfInt 5))]],
      [(''42'', [(''name'', PDecimal (OfInt 5))])]) \<and>
   lambda_handler example_env ''u1'' (request ''GET'' ''/projects'' None)
       [(''42'', [(''name'', PDecimal (OfInt 5))])] =
     (\<lparr>statusCode = 500,
       body = ''An internal error occurred: Object of type Decimal is not JSON serializable''\<rparr>,
      [(''42'', [(''name'', PDecimal (OfInt 5))])])"
  using
    lambda_handler_never_raises [where env = down_env and u = "''u1''" and s = "()"
      and b = "''oops''" and x = "''42''"
      and e = "ValueError ''Expecting value: line 1 column 1 (char 0)''"]
    lambda_handler_never_raises [where env = down_env and u = "''u1''" and s = "()"
      and t = "()" and b = "''{}''" and c = None and x = "''42''" and bv = "JObj []"
      and it = "[(''id'', JStr ''u1''), (''name'', JNull), (''description'', JNull),
                 (''status'', JNull), (''createdAt'', JNull)]"
      and vals = "[(''name'', JNull), (''description'', JNull), (''status'', JNull)]"
      and e = "ClientError ''Service unavailable''"]
    lambda_handler_never_raises [where env = example_env and u = "''u1''"
      and s = "[(''42'', [(''name'', PDecimal (OfInt 5))])]"
      and t = "[(''42'', [(''name'', PDecimal (OfInt 5))])]" and c = None and x = "''42''"
      and row = "[(''id'', PStr ''42''), (''name'', PDecimal (OfInt 5))]"
      and rows = "[[(''id'', PStr ''42''), (''name'', PDecimal (OfInt 5))]]"
      and e = "TypeError ''Object of type Decimal is not JSON serializable''"]
  by (simp add: down_env_def down_table_def example_env_def mem_env_def mem_table_def
      mem_get_item_def mem_scan_def example_loads_def example_dumps_def
      error_response_def message_def new_item_def update_values_def body_get_def dict_get_def
      not_serializable_def)

end
